theory Spec2Isabelle
  imports
    Main
    "HOL-Library.AList"
    "HOL-Library.Char_ord"
    "HOL-Library.List_Lexorder"
    "HOL-Library.Multiset"
begin

section \<open>Data model (types.ts)\<close>

text \<open>
  A log entry is a tagged union of three record kinds sharing \<open>id\<close> and \<open>timestamp\<close>.
  The discriminant \<open>type\<close> is the constructor of the entry's body. JavaScript numbers are
  modelled as \<open>int\<close>: timestamps are integer milliseconds and severities are integers, far
  inside the range a double represents exactly. \<open>NaN\<close> is not an \<open>int\<close>; the one place
  where the code tests for it (the result of parsing an edited date) is an \<open>int option\<close>.
  An optional field (\<open>field?: T\<close>) is a \<open>T option\<close>, \<open>None\<close> standing for \<open>undefined\<close>.
\<close>

datatype LogType = Symptom | Intake | Stress

datatype BristolStoolType = type1 | type2 | type3 | type4 | type5 | type6 | type7

text \<open>
  The fields of the three kinds, in the order of the interfaces:
  \<open>SymptomLog bowelMovement crampsSeverity bloatingSeverity urgency notes\<close>,
  \<open>IntakeLog item quantity notes\<close>, \<open>StressLog level notes\<close>.
\<close>

datatype LogBody =
    SymptomLog "BristolStoolType option" "int option" "int option" "bool option" "string option"
  | IntakeLog string "string option" "string option"
  | StressLog int "string option"

record LogEntryBase =
  id' :: string
  timestamp :: int

record LogEntry = LogEntryBase +
  body :: LogBody

fun bodyType :: "LogBody \<Rightarrow> LogType" where
  "bodyType (SymptomLog bm cs bs u n) = Symptom"
| "bodyType (IntakeLog i q n) = Intake"
| "bodyType (StressLog l n) = Stress"

definition type' :: "LogEntry \<Rightarrow> LogType" where
  "type' log = bodyType (body log)"

record ChartDataPoint =
  date :: string
  cramps :: "int option"
  bloating :: "int option"
  stress :: "int option"

section \<open>Date utilities (utils/dateUtils.ts)\<close>

text \<open>
  The runtime's \<open>Date\<close> object is not code of the repository. What the code reads from
  \<open>new Date(timestamp)\<close> are the three local-time getters; the conversion from a timestamp
  to them (the runtime's local time zone) is a parameter \<open>tz\<close> of every function that
  constructs a \<open>Date\<close>. \<open>getMonth\<close> is zero-based, as in JavaScript.
\<close>

record LocalDate =
  getFullYear :: int
  getMonth :: int
  getDate :: int

text \<open>\<open>Number.prototype.toString\<close> on an integer: decimal digits, a minus sign when negative.\<close>

definition digitChar :: "nat \<Rightarrow> char" where
  "digitChar n = ''0123456789'' ! n"

fun natToString :: "nat \<Rightarrow> string" where
  "natToString n = (if n < 10 then [digitChar n] else natToString (n div 10) @ [digitChar (n mod 10)])"

declare natToString.simps [simp del]

definition numberToString :: "int \<Rightarrow> string" where
  "numberToString i = (if i < 0 then CHR ''-'' # natToString (nat (- i)) else natToString (nat i))"

text \<open>\<open>String.prototype.padStart\<close> with a one-character filler.\<close>

definition padStart :: "nat \<Rightarrow> char \<Rightarrow> string \<Rightarrow> string" where
  "padStart n c s = replicate (n - length s) c @ s"

definition isToday :: "(int \<Rightarrow> LocalDate) \<Rightarrow> int \<Rightarrow> int \<Rightarrow> bool" where
  "isToday tz now ts =
     (let today = tz now; dateFromTimestamp = tz ts
      in getDate dateFromTimestamp = getDate today \<and>
         getMonth dateFromTimestamp = getMonth today \<and>
         getFullYear dateFromTimestamp = getFullYear today)"

definition formatTimestampToDateString :: "(int \<Rightarrow> LocalDate) \<Rightarrow> int \<Rightarrow> string" where
  "formatTimestampToDateString tz ts =
     (let d = tz ts;
          year = getFullYear d;
          month = padStart 2 (CHR ''0'') (numberToString (getMonth d + 1));
          day = padStart 2 (CHR ''0'') (numberToString (getDate d))
      in numberToString year @ ''-'' @ month @ ''-'' @ day)"

text \<open>
  The order of the calendar on the getters' values, and the values for which the date
  string has the shape \<open>YYYY-MM-DD\<close>: a year of four digits, and the month and day
  ranges that the getters of a valid \<open>Date\<close> have.
\<close>

definition validDate :: "LocalDate \<Rightarrow> bool" where
  "validDate d = (1000 \<le> getFullYear d \<and> getFullYear d \<le> 9999
                  \<and> 0 \<le> getMonth d \<and> getMonth d \<le> 11
                  \<and> 1 \<le> getDate d \<and> getDate d \<le> 31)"

definition calendarBefore :: "LocalDate \<Rightarrow> LocalDate \<Rightarrow> bool" where
  "calendarBefore a b =
     (getFullYear a < getFullYear b
      \<or> (getFullYear a = getFullYear b
          \<and> (getMonth a < getMonth b \<or> (getMonth a = getMonth b \<and> getDate a < getDate b))))"

text \<open>
  One instance of the parameter \<open>tz\<close>, used for concrete runs: the getters of a runtime
  whose local time zone is UTC (proleptic Gregorian calendar, days counted from
  1970-01-01, 86400000 ms per day).
\<close>

definition utcDate :: "int \<Rightarrow> LocalDate" where
  "utcDate ts =
     (let z = ts div 86400000 + 719468;
          era = z div 146097;
          doe = z mod 146097;
          yoe = (doe - doe div 1460 + doe div 36524 - doe div 146096) div 365;
          doy = doe - (365 * yoe + yoe div 4 - yoe div 100);
          mp = (5 * doy + 2) div 153;
          d = doy - (153 * mp + 2) div 5 + 1;
          m = (if mp < 10 then mp + 3 else mp - 9);
          y = yoe + era * 400 + (if m \<le> 2 then 1 else 0)
      in \<lparr>getFullYear = y, getMonth = m - 1, getDate = d\<rparr>)"

section \<open>Chart aggregation (components/DataChart.tsx)\<close>

text \<open>
  \<open>dailyData\<close> is a plain object keyed by date string. Its keys are never integer-like
  (each contains \<open>-\<close>), so \<open>Object.values\<close> lists the values in insertion order: an
  association list to which \<open>AList.update\<close> appends a new key and in which
  \<open>AList.map_entry\<close> rewrites the value of an existing key in place.
  \<open>Array.prototype.sort\<close> is stable; with the comparator \<open>a.timestamp - b.timestamp\<close>
  it is \<open>sort_key timestamp\<close>. \<open>localeCompare\<close> on strings of digits and \<open>-\<close> is the
  lexicographic order of the characters.
\<close>

definition nullish :: "int option \<Rightarrow> int \<Rightarrow> int" where
  "nullish v d = (case v of None \<Rightarrow> d | Some x \<Rightarrow> x)"

definition emptyPoint :: "string \<Rightarrow> ChartDataPoint" where
  "emptyPoint dateStr = \<lparr>date = dateStr, cramps = None, bloating = None, stress = None\<rparr>"

definition processLog ::
  "(int \<Rightarrow> LocalDate) \<Rightarrow> (string \<times> ChartDataPoint) list \<Rightarrow> LogEntry \<Rightarrow> (string \<times> ChartDataPoint) list" where
  "processLog tz dailyData log =
     (let dateStr = formatTimestampToDateString tz (timestamp log);
          dailyData1 = (if map_of dailyData dateStr = None
                        then AList.update dateStr (emptyPoint dateStr) dailyData
                        else dailyData)
      in case body log of
           SymptomLog bm cs bs u n \<Rightarrow>
             (let dailyData2 =
                    (case cs of
                       None \<Rightarrow> dailyData1
                     | Some c \<Rightarrow> AList.map_entry dateStr
                         (\<lambda>p. p\<lparr>cramps := Some (max (nullish (cramps p) 0) c)\<rparr>) dailyData1)
              in case bs of
                   None \<Rightarrow> dailyData2
                 | Some b \<Rightarrow> AList.map_entry dateStr
                     (\<lambda>p. p\<lparr>bloating := Some (max (nullish (bloating p) 0) b)\<rparr>) dailyData2)
         | IntakeLog i q n \<Rightarrow> dailyData1
         | StressLog l n \<Rightarrow> AList.map_entry dateStr (\<lambda>p. p\<lparr>stress := Some l\<rparr>) dailyData1)"

definition processChartData :: "(int \<Rightarrow> LocalDate) \<Rightarrow> LogEntry list \<Rightarrow> ChartDataPoint list" where
  "processChartData tz logs =
     (let sortedLogs = sort_key timestamp logs;
          dailyData = foldl (processLog tz) [] sortedLogs
      in sort_key date (map snd dailyData))"

text \<open>
  Reading the aggregation per date: the entries of a date, the severities they define,
  and the effect of one entry on the point of its own date.
\<close>

definition dateOf :: "(int \<Rightarrow> LocalDate) \<Rightarrow> LogEntry \<Rightarrow> string" where
  "dateOf tz log = formatTimestampToDateString tz (timestamp log)"

definition logsOn :: "(int \<Rightarrow> LocalDate) \<Rightarrow> string \<Rightarrow> LogEntry list \<Rightarrow> LogEntry list" where
  "logsOn tz d logs = filter (\<lambda>log. dateOf tz log = d) logs"

definition crampsOf :: "LogEntry \<Rightarrow> int option" where
  "crampsOf log = (case body log of SymptomLog bm cs bs u n \<Rightarrow> cs | _ \<Rightarrow> None)"

definition bloatingOf :: "LogEntry \<Rightarrow> int option" where
  "bloatingOf log = (case body log of SymptomLog bm cs bs u n \<Rightarrow> bs | _ \<Rightarrow> None)"

definition stressOf :: "LogEntry \<Rightarrow> int option" where
  "stressOf log = (case body log of StressLog l n \<Rightarrow> Some l | _ \<Rightarrow> None)"

definition dailyMax :: "int list \<Rightarrow> int option" where
  "dailyMax vs = (if vs = [] then None else Some (Max (set vs)))"

definition lastLevel :: "int list \<Rightarrow> int option" where
  "lastLevel ls = (if ls = [] then None else Some (last ls))"

definition crampsOn :: "(int \<Rightarrow> LocalDate) \<Rightarrow> string \<Rightarrow> LogEntry list \<Rightarrow> int list" where
  "crampsOn tz d logs = List.map_filter crampsOf (logsOn tz d logs)"

definition bloatingOn :: "(int \<Rightarrow> LocalDate) \<Rightarrow> string \<Rightarrow> LogEntry list \<Rightarrow> int list" where
  "bloatingOn tz d logs = List.map_filter bloatingOf (logsOn tz d logs)"

definition stressOn :: "(int \<Rightarrow> LocalDate) \<Rightarrow> string \<Rightarrow> LogEntry list \<Rightarrow> int list" where
  "stressOn tz d logs = List.map_filter stressOf (logsOn tz d logs)"

definition severityInRange :: "int option \<Rightarrow> bool" where
  "severityInRange v = (case v of None \<Rightarrow> True | Some c \<Rightarrow> 0 \<le> c \<and> c \<le> 5)"

definition maxStep :: "int option \<Rightarrow> int \<Rightarrow> int option" where
  "maxStep acc c = Some (max (nullish acc 0) c)"

definition applyLog :: "ChartDataPoint \<Rightarrow> LogEntry \<Rightarrow> ChartDataPoint" where
  "applyLog p log =
     (case body log of
        SymptomLog bm cs bs u n \<Rightarrow>
          (let p2 = (case cs of None \<Rightarrow> p | Some c \<Rightarrow> p\<lparr>cramps := maxStep (cramps p) c\<rparr>)
           in case bs of None \<Rightarrow> p2 | Some b \<Rightarrow> p2\<lparr>bloating := maxStep (bloating p2) b\<rparr>)
      | IntakeLog i q n \<Rightarrow> p
      | StressLog l n \<Rightarrow> p\<lparr>stress := Some l\<rparr>)"

definition pointOr :: "string \<Rightarrow> ChartDataPoint option \<Rightarrow> ChartDataPoint" where
  "pointOr k po = (case po of None \<Rightarrow> emptyPoint k | Some p \<Rightarrow> p)"

definition dayPoint :: "(int \<Rightarrow> LocalDate) \<Rightarrow> LogEntry list \<Rightarrow> string \<Rightarrow> ChartDataPoint" where
  "dayPoint tz logs k = foldl applyLog (emptyPoint k) (logsOn tz k (sort_key timestamp logs))"

section \<open>Application state and CRUD operations (App.tsx)\<close>

text \<open>
  The component's state is passed explicitly. \<open>alerts\<close> records the messages given to
  \<open>window.alert\<close>, \<open>downloads\<close> the files offered for download (name, and the array
  that \<open>JSON.stringify\<close> serialises), both oldest first. The current time
  (\<open>Date.now()\<close>, \<open>new Date()\<close>) is the parameter \<open>now\<close>, and the identifier that
  \<open>uuidv4()\<close> returns is the parameter \<open>uuid\<close>. The descending comparator
  \<open>b.timestamp - a.timestamp\<close> of the stable sort is \<open>sort_key\<close> on the negated
  timestamp.
\<close>

datatype View = ViewLog | ViewAddSymptom | ViewAddIntake | ViewAddStress | ViewChart

record AppState =
  logs :: "LogEntry list"
  activeView :: View
  editingEntry :: "LogEntry option"
  stressLoggedToday :: bool
  alerts :: "string list"
  downloads :: "(string \<times> LogEntry list) list"

text \<open>
  Modelled from the spec: the setter of the persistent store adapter (the hook
  \<open>useLocalStorage\<close>, whose file is not among the sources). By the specification the
  setter updates the in-memory value and serialises it synchronously to durable storage,
  each mutation replacing the persisted snapshot as a whole; the stored collection is
  therefore the field \<open>logs\<close>. Like a React state setter it is given a function of the
  previous value.
\<close>

definition setLogs :: "(LogEntry list \<Rightarrow> LogEntry list) \<Rightarrow> AppState \<Rightarrow> AppState" where
  "setLogs f s = s\<lparr>logs := f (logs s)\<rparr>"

definition alert :: "string \<Rightarrow> AppState \<Rightarrow> AppState" where
  "alert msg s = s\<lparr>alerts := alerts s @ [msg]\<rparr>"

definition sortDescending :: "LogEntry list \<Rightarrow> LogEntry list" where
  "sortDescending ls = sort_key (\<lambda>l. - timestamp l) ls"

definition lastStressLog :: "LogEntry list \<Rightarrow> LogEntry option" where
  "lastStressLog ls =
     (case sortDescending (filter (\<lambda>log. type' log = Stress) ls) of
        [] \<Rightarrow> None
      | l # rest \<Rightarrow> Some l)"

definition stressStatus :: "(int \<Rightarrow> LocalDate) \<Rightarrow> int \<Rightarrow> LogEntry list \<Rightarrow> bool" where
  "stressStatus tz now ls =
     (case lastStressLog ls of None \<Rightarrow> False | Some l \<Rightarrow> isToday tz now (timestamp l))"

definition checkStressLogStatus :: "(int \<Rightarrow> LocalDate) \<Rightarrow> int \<Rightarrow> AppState \<Rightarrow> AppState" where
  "checkStressLogStatus tz now s = s\<lparr>stressLoggedToday := stressStatus tz now (logs s)\<rparr>"

text \<open>
  The effect that React runs after a render in which \<open>logs\<close> changed (and on mount)
  calls \<open>checkStressLogStatus\<close> on the new collection; the notification request and the
  five-minute timer it also installs are outside this model.
\<close>

definition appEffect :: "(int \<Rightarrow> LocalDate) \<Rightarrow> int \<Rightarrow> AppState \<Rightarrow> AppState" where
  "appEffect tz now s = checkStressLogStatus tz now s"

definition createLogEntry :: "string \<Rightarrow> int \<Rightarrow> LogEntry \<Rightarrow> AppState \<Rightarrow> AppState" where
  "createLogEntry uuid now entryData s =
     (let newEntry = entryData\<lparr>id' := uuid, timestamp := now\<rparr>;
          s1 = (setLogs (\<lambda>prevLogs. sortDescending (prevLogs @ [newEntry])) s)
                 \<lparr>activeView := ViewLog, editingEntry := None\<rparr>
      in if type' newEntry = Stress then s1\<lparr>stressLoggedToday := True\<rparr> else s1)"

text \<open>
  \<open>updateLogEntry\<close> and \<open>deleteLogEntry\<close> call the \<open>checkStressLogStatus\<close> of the current
  render, which still reads the collection as it was before the change.
\<close>

definition updateLogEntry :: "(int \<Rightarrow> LocalDate) \<Rightarrow> int \<Rightarrow> LogEntry \<Rightarrow> AppState \<Rightarrow> AppState" where
  "updateLogEntry tz now updatedEntryData s =
     (let s1 = (setLogs (\<lambda>prevLogs. sortDescending
                    (map (\<lambda>log. if id' log = id' updatedEntryData then updatedEntryData else log) prevLogs)) s)
                 \<lparr>activeView := ViewLog, editingEntry := None\<rparr>
      in if type' updatedEntryData = Stress
         then s1\<lparr>stressLoggedToday := stressStatus tz now (logs s)\<rparr>
         else s1)"

definition deleteLogEntry :: "(int \<Rightarrow> LocalDate) \<Rightarrow> int \<Rightarrow> string \<Rightarrow> AppState \<Rightarrow> AppState" where
  "deleteLogEntry tz now i s =
     (let entryToDelete = find (\<lambda>log. id' log = i) (logs s);
          s1 = (setLogs (\<lambda>prevLogs. filter (\<lambda>log. id' log \<noteq> i) prevLogs) s)
                 \<lparr>activeView := ViewLog, editingEntry := None\<rparr>
      in case entryToDelete of
           None \<Rightarrow> s1
         | Some e \<Rightarrow>
             if type' e = Stress \<and> isToday tz now (timestamp e)
             then s1\<lparr>stressLoggedToday := stressStatus tz now (logs s)\<rparr>
             else s1)"

subsection \<open>Save handlers\<close>

text \<open>
  Each form hands over its data without the \<open>type\<close> tag; the handler adds the tag
  (\<open>{ ...data, type: 'stress' }\<close> is \<open>stressEntryData data\<close>, and likewise for the other two
  kinds). A string is truthy when it is not empty, a number when it is not \<open>0\<close>. These
  three handlers are the only callers of \<open>updateLogEntry\<close>.
\<close>

record SymptomFormData = LogEntryBase +
  bowelMovement :: "BristolStoolType option"
  crampsSeverity :: "int option"
  bloatingSeverity :: "int option"
  urgency :: "bool option"
  symptomNotes :: "string option"

record IntakeFormData = LogEntryBase +
  item :: string
  quantity :: "string option"
  intakeNotes :: "string option"

record StressFormData = LogEntryBase +
  level :: int
  stressNotes :: "string option"

definition symptomEntryData :: "SymptomFormData \<Rightarrow> LogEntry" where
  "symptomEntryData data =
     \<lparr>id' = id' data, timestamp = timestamp data,
      body = SymptomLog (bowelMovement data) (crampsSeverity data)
               (bloatingSeverity data) (urgency data) (symptomNotes data)\<rparr>"

definition intakeEntryData :: "IntakeFormData \<Rightarrow> LogEntry" where
  "intakeEntryData data =
     \<lparr>id' = id' data, timestamp = timestamp data,
      body = IntakeLog (item data) (quantity data) (intakeNotes data)\<rparr>"

definition stressEntryData :: "StressFormData \<Rightarrow> LogEntry" where
  "stressEntryData data =
     \<lparr>id' = id' data, timestamp = timestamp data,
      body = StressLog (level data) (stressNotes data)\<rparr>"

definition handleSaveSymptom ::
  "(int \<Rightarrow> LocalDate) \<Rightarrow> int \<Rightarrow> string \<Rightarrow> SymptomFormData \<Rightarrow> AppState \<Rightarrow> AppState" where
  "handleSaveSymptom tz now uuid data s =
     (let entryData = symptomEntryData data
      in if id' data \<noteq> [] \<and> timestamp data \<noteq> 0
         then updateLogEntry tz now entryData s
         else createLogEntry uuid now entryData s)"

definition handleSaveIntake ::
  "(int \<Rightarrow> LocalDate) \<Rightarrow> int \<Rightarrow> string \<Rightarrow> IntakeFormData \<Rightarrow> AppState \<Rightarrow> AppState" where
  "handleSaveIntake tz now uuid data s =
     (let entryData = intakeEntryData data
      in if id' data \<noteq> [] \<and> timestamp data \<noteq> 0
         then updateLogEntry tz now entryData s
         else createLogEntry uuid now entryData s)"

definition handleSaveStress ::
  "(int \<Rightarrow> LocalDate) \<Rightarrow> int \<Rightarrow> string \<Rightarrow> StressFormData \<Rightarrow> AppState \<Rightarrow> AppState" where
  "handleSaveStress tz now uuid data s =
     (let entryData = stressEntryData data
      in if id' data \<noteq> [] \<and> timestamp data \<noteq> 0
         then updateLogEntry tz now entryData s
         else if stressLoggedToday s
              then (alert ''You have already logged your stress level for today.'' s)
                     \<lparr>activeView := ViewLog\<rparr>
              else createLogEntry uuid now entryData s)"

subsection \<open>Export\<close>

text \<open>
  \<open>toISOString\<close> is the runtime's rendering of the export moment; the file name keeps
  what precedes the first \<open>T\<close>.
\<close>

definition handleExportData :: "(int \<Rightarrow> string) \<Rightarrow> int \<Rightarrow> AppState \<Rightarrow> AppState" where
  "handleExportData toISOString now s =
     (if length (logs s) = 0
      then alert ''No data to export.'' s
      else
        let sortedLogs = sort_key timestamp (logs s);
            dateStr = takeWhile (\<lambda>c. c \<noteq> CHR ''T'') (toISOString now)
        in s\<lparr>downloads := downloads s @ [(''ibs_tracker_data_'' @ dateStr @ ''.json'', sortedLogs)]\<rparr>)"

section \<open>Forms (components/SymptomForm.tsx, IntakeForm.tsx, StressForm.tsx)\<close>

text \<open>
  A form's \<open>handleSubmit\<close> either calls \<open>alert\<close> and returns, or calls \<open>onSave\<close> with
  the data it built. \<open>dateParse\<close> is the runtime's \<open>new Date(s).getTime()\<close>, with
  \<open>None\<close> for \<open>NaN\<close>, and \<open>trim\<close> is the runtime's \<open>String.prototype.trim\<close>; both
  are parameters.
\<close>

datatype 'a Submit = Alert string | OnSave 'a

definition parseInputTimestamp :: "(string \<Rightarrow> int option) \<Rightarrow> string \<Rightarrow> int option" where
  "parseInputTimestamp dateParse dateTimeString = dateParse dateTimeString"

definition orUndefined :: "string \<Rightarrow> string option" where
  "orUndefined s = (if s = [] then None else Some s)"

record SymptomFormState =
  bowelMovement_st :: "BristolStoolType option"
  crampsSeverity_st :: int
  bloatingSeverity_st :: int
  urgency_st :: bool
  notes_symptom :: string
  editedDateTime_symptom :: string

record IntakeFormState =
  item_st :: string
  quantity_st :: string
  notes_intake :: string
  editedDateTime_intake :: string

record StressFormState =
  level_st :: int
  notes_stress :: string
  editedDateTime_stress :: string

definition invalidDateMessage :: string where
  "invalidDateMessage = ''Invalid date and time selected. Please check the format.''"

definition SymptomForm_handleSubmit ::
  "(string \<Rightarrow> string) \<Rightarrow> (string \<Rightarrow> int option) \<Rightarrow> SymptomFormData option \<Rightarrow> SymptomFormState \<Rightarrow> SymptomFormData Submit" where
  "SymptomForm_handleSubmit trim dateParse initialData st =
     (let isEditing = (initialData \<noteq> None);
          parsed = (if isEditing then parseInputTimestamp dateParse (editedDateTime_symptom st)
                    else Some 0)
      in case parsed of
           None \<Rightarrow> Alert invalidDateMessage
         | Some timestampToSave \<Rightarrow>
             OnSave \<lparr>id' = (case initialData of None \<Rightarrow> [] | Some ini \<Rightarrow> id' ini),
                     timestamp = timestampToSave,
                     bowelMovement = bowelMovement_st st,
                     crampsSeverity = (if crampsSeverity_st st > 0 then Some (crampsSeverity_st st) else None),
                     bloatingSeverity = (if bloatingSeverity_st st > 0 then Some (bloatingSeverity_st st) else None),
                     urgency = (if urgency_st st then Some True else None),
                     symptomNotes = orUndefined (trim (notes_symptom st))\<rparr>)"

definition IntakeForm_handleSubmit ::
  "(string \<Rightarrow> string) \<Rightarrow> (string \<Rightarrow> int option) \<Rightarrow> IntakeFormData option \<Rightarrow> IntakeFormState \<Rightarrow> IntakeFormData Submit" where
  "IntakeForm_handleSubmit trim dateParse initialData st =
     (if trim (item_st st) = [] then Alert ''Please enter the item consumed.''
      else
        let isEditing = (initialData \<noteq> None);
            parsed = (if isEditing then parseInputTimestamp dateParse (editedDateTime_intake st)
                      else Some 0)
        in case parsed of
             None \<Rightarrow> Alert invalidDateMessage
           | Some timestampToSave \<Rightarrow>
               OnSave \<lparr>id' = (case initialData of None \<Rightarrow> [] | Some ini \<Rightarrow> id' ini),
                       timestamp = timestampToSave,
                       item = trim (item_st st),
                       quantity = orUndefined (trim (quantity_st st)),
                       intakeNotes = orUndefined (trim (notes_intake st))\<rparr>)"

definition StressForm_handleSubmit ::
  "(string \<Rightarrow> string) \<Rightarrow> (string \<Rightarrow> int option) \<Rightarrow> StressFormData option \<Rightarrow> StressFormState \<Rightarrow> StressFormData Submit" where
  "StressForm_handleSubmit trim dateParse initialData st =
     (let isEditing = (initialData \<noteq> None);
          parsed = (if isEditing then parseInputTimestamp dateParse (editedDateTime_stress st)
                    else Some 0)
      in case parsed of
           None \<Rightarrow> Alert invalidDateMessage
         | Some timestampToSave \<Rightarrow>
             OnSave \<lparr>id' = (case initialData of None \<Rightarrow> [] | Some ini \<Rightarrow> id' ini),
                     timestamp = timestampToSave,
                     level = level_st st,
                     stressNotes = orUndefined (trim (notes_stress st))\<rparr>)"

subsection \<open>The forms as the application mounts them\<close>

text \<open>
  \<open>renderActiveView\<close> gives each form the entry being edited when it is of the form's
  kind (\<open>null\<close> otherwise) and the matching save handler as \<open>onSave\<close>.
\<close>

definition symptomInitialData :: "AppState \<Rightarrow> SymptomFormData option" where
  "symptomInitialData s =
     (case editingEntry s of
        None \<Rightarrow> None
      | Some e \<Rightarrow>
          (case body e of
             SymptomLog bm cs bs u n \<Rightarrow>
               Some \<lparr>id' = id' e, timestamp = timestamp e, bowelMovement = bm, crampsSeverity = cs,
                      bloatingSeverity = bs, urgency = u, symptomNotes = n\<rparr>
           | _ \<Rightarrow> None))"

definition intakeInitialData :: "AppState \<Rightarrow> IntakeFormData option" where
  "intakeInitialData s =
     (case editingEntry s of
        None \<Rightarrow> None
      | Some e \<Rightarrow>
          (case body e of
             IntakeLog i q n \<Rightarrow>
               Some \<lparr>id' = id' e, timestamp = timestamp e, item = i, quantity = q, intakeNotes = n\<rparr>
           | _ \<Rightarrow> None))"

definition stressInitialData :: "AppState \<Rightarrow> StressFormData option" where
  "stressInitialData s =
     (case editingEntry s of
        None \<Rightarrow> None
      | Some e \<Rightarrow>
          (case body e of
             StressLog l n \<Rightarrow> Some \<lparr>id' = id' e, timestamp = timestamp e, level = l, stressNotes = n\<rparr>
           | _ \<Rightarrow> None))"

definition submitSymptomForm ::
  "(string \<Rightarrow> string) \<Rightarrow> (string \<Rightarrow> int option) \<Rightarrow> (int \<Rightarrow> LocalDate) \<Rightarrow> int \<Rightarrow> string \<Rightarrow> SymptomFormState \<Rightarrow> AppState \<Rightarrow> AppState" where
  "submitSymptomForm trim dateParse tz now uuid st s =
     (case SymptomForm_handleSubmit trim dateParse (symptomInitialData s) st of
        Alert msg \<Rightarrow> alert msg s
      | OnSave data \<Rightarrow> handleSaveSymptom tz now uuid data s)"

definition submitIntakeForm ::
  "(string \<Rightarrow> string) \<Rightarrow> (string \<Rightarrow> int option) \<Rightarrow> (int \<Rightarrow> LocalDate) \<Rightarrow> int \<Rightarrow> string \<Rightarrow> IntakeFormState \<Rightarrow> AppState \<Rightarrow> AppState" where
  "submitIntakeForm trim dateParse tz now uuid st s =
     (case IntakeForm_handleSubmit trim dateParse (intakeInitialData s) st of
        Alert msg \<Rightarrow> alert msg s
      | OnSave data \<Rightarrow> handleSaveIntake tz now uuid data s)"

definition submitStressForm ::
  "(string \<Rightarrow> string) \<Rightarrow> (string \<Rightarrow> int option) \<Rightarrow> (int \<Rightarrow> LocalDate) \<Rightarrow> int \<Rightarrow> string \<Rightarrow> StressFormState \<Rightarrow> AppState \<Rightarrow> AppState" where
  "submitStressForm trim dateParse tz now uuid st s =
     (case StressForm_handleSubmit trim dateParse (stressInitialData s) st of
        Alert msg \<Rightarrow> alert msg s
      | OnSave data \<Rightarrow> handleSaveStress tz now uuid data s)"

section \<open>Concrete entries and states for the examples\<close>

text \<open>
  \<open>stressEntry1\<close> is dated 2024-01-01 12:00 UTC, \<open>intakeEntry1\<close> 08:00 and
  \<open>symptomEntry1\<close> 09:00 of the same day. \<open>dateParseExample\<close> is a date parser that
  accepts one string and answers \<open>NaN\<close> to every other.
\<close>

definition stateOf :: "LogEntry list \<Rightarrow> LogEntry option \<Rightarrow> bool \<Rightarrow> AppState" where
  "stateOf ls e flag =
     \<lparr>logs = ls, activeView = ViewLog, editingEntry = e, stressLoggedToday = flag,
      alerts = [], downloads = []\<rparr>"

definition stressEntry1 :: LogEntry where
  "stressEntry1 = \<lparr>id' = ''s1'', timestamp = 1704110400000, body = StressLog 3 None\<rparr>"

definition intakeEntry1 :: LogEntry where
  "intakeEntry1 = \<lparr>id' = ''i1'', timestamp = 1704096000000, body = IntakeLog ''tea'' None None\<rparr>"

definition symptomEntry1 :: LogEntry where
  "symptomEntry1 = \<lparr>id' = ''y1'', timestamp = 1704099600000, body = SymptomLog None (Some 2) None None None\<rparr>"

definition dateParseExample :: "string \<Rightarrow> int option" where
  "dateParseExample str = (if str = ''2024-01-01T10:00'' then Some 1704103200000 else None)"

text \<open>
  One instance of the parameter \<open>trim\<close>, for strings held as UTF-8 bytes: it removes from
  both ends the code points that ECMAScript counts as white space or line terminators
  (U+0009 to U+000D, U+0020, U+00A0, U+1680, U+2000 to U+200A, U+2028, U+2029, U+202F,
  U+205F, U+3000, U+FEFF).
\<close>

definition whiteSpaceUtf8 :: "string list" where
  "whiteSpaceUtf8 =
     [[CHR 0x09], [CHR 0x0A], [CHR 0x0B], [CHR 0x0C], [CHR 0x0D], [CHR 0x20],
      [CHR 0xC2, CHR 0xA0], [CHR 0xE1, CHR 0x9A, CHR 0x80],
      [CHR 0xE2, CHR 0x80, CHR 0x80], [CHR 0xE2, CHR 0x80, CHR 0x81], [CHR 0xE2, CHR 0x80, CHR 0x82],
      [CHR 0xE2, CHR 0x80, CHR 0x83], [CHR 0xE2, CHR 0x80, CHR 0x84], [CHR 0xE2, CHR 0x80, CHR 0x85],
      [CHR 0xE2, CHR 0x80, CHR 0x86], [CHR 0xE2, CHR 0x80, CHR 0x87], [CHR 0xE2, CHR 0x80, CHR 0x88],
      [CHR 0xE2, CHR 0x80, CHR 0x89], [CHR 0xE2, CHR 0x80, CHR 0x8A],
      [CHR 0xE2, CHR 0x80, CHR 0xA8], [CHR 0xE2, CHR 0x80, CHR 0xA9], [CHR 0xE2, CHR 0x80, CHR 0xAF],
      [CHR 0xE2, CHR 0x81, CHR 0x9F], [CHR 0xE3, CHR 0x80, CHR 0x80], [CHR 0xEF, CHR 0xBB, CHR 0xBF]]"

function stripLeading :: "string list \<Rightarrow> string \<Rightarrow> string" where
  "stripLeading ws s =
     (case find (\<lambda>w. w \<noteq> [] \<and> take (length w) s = w) ws of
        None \<Rightarrow> s
      | Some w \<Rightarrow> stripLeading ws (drop (length w) s))"
  by pat_completeness auto
termination
proof (relation "measure (\<lambda>(ws, s). length s)")
  show "wf (measure (\<lambda>(ws, s). length s))" by simp
next
  fix ws :: "string list" and s w :: string
  assume "find (\<lambda>w. w \<noteq> [] \<and> take (length w) s = w) ws = Some w"
  then have w: "w \<noteq> []" and t: "take (length w) s = w"
    by (auto simp: find_Some_iff)
  from t have "length (take (length w) s) = length w"
    by simp
  then have "length w \<le> length s"
    by simp
  with w show "((ws, drop (length w) s), (ws, s)) \<in> measure (\<lambda>(ws, s). length s)"
    by (cases w) auto
qed

declare stripLeading.simps [simp del]

definition trimUtf8 :: "string \<Rightarrow> string" where
  "trimUtf8 s = rev (stripLeading (map rev whiteSpaceUtf8) (rev (stripLeading whiteSpaceUtf8 s)))"

section \<open>Properties of the aggregation\<close>

subsection \<open>The bucket of one date\<close>

lemma map_of_Some_key: "map_of A k = Some y \<Longrightarrow> k \<in> fst ` set A"
  by (metis map_of_eq_None_iff option.distinct(1))

lemma keys_processLog:
  "fst ` set (processLog tz A log) = insert (dateOf tz log) (fst ` set A)"
  by (auto simp: processLog_def dateOf_def Let_def AList.dom_map_entry AList.dom_update map_of_Some_key
      split: LogBody.splits option.splits)

lemma distinct_processLog:
  "distinct (map fst A) \<Longrightarrow> distinct (map fst (processLog tz A log))"
  by (auto simp: processLog_def Let_def AList.distinct_map_entry AList.distinct_update
      split: LogBody.splits option.splits)

lemma map_of_processLog:
  "map_of (processLog tz A log) k =
     (if k = dateOf tz log then Some (applyLog (pointOr k (map_of A k)) log) else map_of A k)"
  by (auto simp: processLog_def dateOf_def Let_def AList.map_of_map_entry AList.update_conv'
      applyLog_def pointOr_def maxStep_def
      split: LogBody.splits option.splits)


lemma map_of_foldl_processLog:
  "map_of (foldl (processLog tz) A ls) k =
     (if logsOn tz k ls = [] then map_of A k
      else Some (foldl applyLog (pointOr k (map_of A k)) (logsOn tz k ls)))"
proof (induction ls arbitrary: A)
  case Nil
  show ?case by (simp add: logsOn_def)
next
  case (Cons x xs)
  show ?case
    by (simp add: Cons.IH map_of_processLog logsOn_def pointOr_def)
qed

lemma keys_foldl_processLog:
  "fst ` set (foldl (processLog tz) A ls) = fst ` set A \<union> dateOf tz ` set ls"
  by (induction ls arbitrary: A) (auto simp: keys_processLog)

lemma distinct_foldl_processLog:
  "distinct (map fst A) \<Longrightarrow> distinct (map fst (foldl (processLog tz) A ls))"
  by (induction ls arbitrary: A) (auto simp: distinct_processLog)

lemma date_applyLog: "date (applyLog p log) = date p"
  by (simp add: applyLog_def Let_def split: LogBody.splits option.splits)

lemma date_foldl_applyLog: "date (foldl applyLog p ls) = date p"
  by (induction ls arbitrary: p) (simp_all add: date_applyLog)

lemma cramps_foldl_applyLog:
  "cramps (foldl applyLog p ls) = foldl maxStep (cramps p) (List.map_filter crampsOf ls)"
  by (induction ls arbitrary: p)
     (auto simp: applyLog_def crampsOf_def Let_def List.map_filter_simps split: LogBody.splits option.splits)

lemma bloating_foldl_applyLog:
  "bloating (foldl applyLog p ls) = foldl maxStep (bloating p) (List.map_filter bloatingOf ls)"
  by (induction ls arbitrary: p)
     (auto simp: applyLog_def bloatingOf_def Let_def List.map_filter_simps split: LogBody.splits option.splits)

lemma stress_foldl_applyLog:
  "stress (foldl applyLog p ls) =
     (case List.map_filter stressOf ls of [] \<Rightarrow> stress p | ls \<Rightarrow> Some (last ls))"
  by (induction ls arbitrary: p)
     (auto simp: applyLog_def stressOf_def Let_def List.map_filter_simps split: LogBody.splits option.splits list.splits)

lemma foldl_maxStep_Some: "foldl maxStep (Some a) cs = Some (Max (insert a (set cs)))"
proof (induction cs arbitrary: a)
  case Nil
  show ?case by simp
next
  case (Cons c cs)
  have "Max (insert (max a c) (set cs)) = Max (insert a (insert c (set cs)))"
    by (cases "set cs = {}") (simp_all add: max.assoc Max_insert)
  moreover have "maxStep (Some a) c = Some (max a c)"
    by (simp add: maxStep_def nullish_def)
  ultimately show ?case by (simp add: Cons.IH)
qed

lemma foldl_maxStep_None:
  "foldl maxStep None cs = (if cs = [] then None else Some (max 0 (Max (set cs))))"
proof (cases cs)
  case Nil
  then show ?thesis by simp
next
  case (Cons c cs')
  have "Max (insert (max 0 c) (set cs')) = max 0 (Max (insert c (set cs')))"
    by (cases "set cs' = {}") (simp_all add: max.assoc Max_insert)
  moreover have "maxStep None c = Some (max 0 c)"
    by (simp add: maxStep_def nullish_def)
  ultimately show ?thesis using Cons by (simp add: foldl_maxStep_Some)
qed

lemma date_dayPoint: "date (dayPoint tz ls k) = k"
  by (simp add: dayPoint_def date_foldl_applyLog emptyPoint_def)

lemma logsOn_sort_empty: "logsOn tz k (sort_key f ls) = [] \<longleftrightarrow> k \<notin> dateOf tz ` set ls"
  by (auto simp: logsOn_def filter_empty_conv)

lemma set_processChartData:
  "set (processChartData tz ls) = dayPoint tz ls ` dateOf tz ` set ls"
proof -
  define A where "A = foldl (processLog tz) [] (sort_key timestamp ls)"
  have dist: "distinct (map fst A)"
    unfolding A_def by (rule distinct_foldl_processLog) simp
  have look: "map_of A k = (if k \<in> dateOf tz ` set ls then Some (dayPoint tz ls k) else None)" for k
    unfolding A_def
    by (simp add: map_of_foldl_processLog logsOn_sort_empty dayPoint_def pointOr_def)
  have "set A = (\<lambda>k. (k, dayPoint tz ls k)) ` dateOf tz ` set ls"
  proof (rule set_eqI)
    fix kp :: "string \<times> ChartDataPoint"
    obtain k p where kp: "kp = (k, p)" by (cases kp)
    have "(k, p) \<in> set A \<longleftrightarrow> map_of A k = Some p"
      using dist by simp
    also have "\<dots> \<longleftrightarrow> k \<in> dateOf tz ` set ls \<and> p = dayPoint tz ls k"
      by (auto simp: look)
    finally show "kp \<in> set A \<longleftrightarrow> kp \<in> (\<lambda>k. (k, dayPoint tz ls k)) ` dateOf tz ` set ls"
      using kp by auto
  qed
  then have "snd ` set A = dayPoint tz ls ` dateOf tz ` set ls"
    by (simp add: image_image)
  then show ?thesis
    by (simp add: processChartData_def A_def)
qed

lemma foldl_maxStep_nonneg: "foldl maxStep None cs = Some v \<Longrightarrow> 0 \<le> v"
  by (auto simp: foldl_maxStep_None split: if_splits)

text \<open>
  Claim C10. Whatever the severities of the input are, a \<open>cramps\<close> or \<open>bloating\<close> value
  of the aggregation that is not \<open>null\<close> is at least \<open>0\<close>: the running maximum of a
  channel that is still \<open>null\<close> starts from \<open>0\<close>.
\<close>

theorem processChartData_nonnegative:
  "\<forall>p \<in> set (processChartData tz ls).
     (\<forall>v. cramps p = Some v \<longrightarrow> 0 \<le> v) \<and> (\<forall>v. bloating p = Some v \<longrightarrow> 0 \<le> v)"
  by (auto simp: set_processChartData dayPoint_def cramps_foldl_applyLog bloating_foldl_applyLog
      emptyPoint_def dest: foldl_maxStep_nonneg)


text \<open>A symptom entry with cramps severity \<open>-3\<close> yields the channel value \<open>0\<close>.\<close>

theorem processChartData_nonnegative_witness:
  "\<lparr>date = ''2024-01-01'', cramps = Some 0, bloating = Some 7, stress = None\<rparr>
     \<in> set (processChartData utcDate
          [\<lparr>id' = ''a'', timestamp = 1704067200000, body = SymptomLog None (Some (- 3)) (Some 7) None None\<rparr>])
   \<and> (0::int) \<le> 0 \<and> (0::int) \<le> 7"
proof -
  have mem: "\<lparr>date = ''2024-01-01'', cramps = Some 0, bloating = Some 7, stress = None\<rparr>
     \<in> set (processChartData utcDate
          [\<lparr>id' = ''a'', timestamp = 1704067200000, body = SymptomLog None (Some (- 3)) (Some 7) None None\<rparr>])"
    by code_simp
  with processChartData_nonnegative [of utcDate
      "[\<lparr>id' = ''a'', timestamp = 1704067200000, body = SymptomLog None (Some (- 3)) (Some 7) None None\<rparr>]"]
  show ?thesis by simp
qed

subsection \<open>Severities of a date\<close>

lemma set_map_filter: "set (List.map_filter f xs) = {y. \<exists>x \<in> set xs. f x = Some y}"
  by (induction xs) (auto split: option.splits)

lemma dailyMax_cong: "set xs = set ys \<Longrightarrow> dailyMax xs = dailyMax ys"
  by (metis dailyMax_def set_empty)

lemma set_crampsOn_sort: "set (crampsOn tz d (sort_key f ls)) = set (crampsOn tz d ls)"
  by (simp add: crampsOn_def logsOn_def set_map_filter)

lemma set_bloatingOn_sort: "set (bloatingOn tz d (sort_key f ls)) = set (bloatingOn tz d ls)"
  by (simp add: bloatingOn_def logsOn_def set_map_filter)

lemma crampsOn_nonneg:
  "\<forall>log \<in> set ls. severityInRange (crampsOf log) \<Longrightarrow> v \<in> set (crampsOn tz d ls) \<Longrightarrow> 0 \<le> v"
  by (auto simp: crampsOn_def logsOn_def set_map_filter severityInRange_def)

lemma bloatingOn_nonneg:
  "\<forall>log \<in> set ls. severityInRange (bloatingOf log) \<Longrightarrow> v \<in> set (bloatingOn tz d ls) \<Longrightarrow> 0 \<le> v"
  by (auto simp: bloatingOn_def logsOn_def set_map_filter severityInRange_def)

lemma foldl_maxStep_dailyMax:
  assumes "\<forall>v \<in> set vs. 0 \<le> v"
  shows "foldl maxStep None vs = dailyMax vs"
proof (cases "vs = []")
  case True
  then show ?thesis by (simp add: dailyMax_def)
next
  case False
  then obtain v where "v \<in> set vs" by (cases vs) auto
  then have "0 \<le> Max (set vs)"
    using assms by (meson List.finite_set Max_ge order_trans)
  then show ?thesis using False by (simp add: foldl_maxStep_None dailyMax_def)
qed

lemma cramps_dayPoint: "cramps (dayPoint tz ls k) = foldl maxStep None (crampsOn tz k (sort_key timestamp ls))"
  by (simp add: dayPoint_def cramps_foldl_applyLog crampsOn_def emptyPoint_def)

lemma bloating_dayPoint: "bloating (dayPoint tz ls k) = foldl maxStep None (bloatingOn tz k (sort_key timestamp ls))"
  by (simp add: dayPoint_def bloating_foldl_applyLog bloatingOn_def emptyPoint_def)

lemma stress_dayPoint: "stress (dayPoint tz ls k) = lastLevel (stressOn tz k (sort_key timestamp ls))"
  by (simp add: dayPoint_def stress_foldl_applyLog stressOn_def emptyPoint_def lastLevel_def split: list.splits)

lemma dates_processChartData: "date ` set (processChartData tz ls) = dateOf tz ` set ls"
  by (simp add: set_processChartData image_image date_dayPoint)

subsection \<open>Dates of the output\<close>

lemma dailyData_entry:
  assumes "(k, p) \<in> set (foldl (processLog tz) [] xs)"
  shows "p = foldl applyLog (emptyPoint k) (logsOn tz k xs)"
proof -
  have "distinct (map fst (foldl (processLog tz) [] xs))"
    by (rule distinct_foldl_processLog) simp
  then have "map_of (foldl (processLog tz) [] xs) k = Some p"
    using assms by simp
  then show ?thesis
    by (simp add: map_of_foldl_processLog pointOr_def split: if_splits)
qed

lemma distinct_map_sort_key: "distinct (map f (sort_key g xs)) = distinct (map f xs)"
proof -
  have "mset (map f (sort_key g xs)) = mset (map f xs)"
    by simp
  then show ?thesis
    by (rule mset_eq_imp_distinct_iff)
qed

lemma distinct_dates_processChartData: "distinct (map date (processChartData tz ls))"
proof -
  define A where "A = foldl (processLog tz) [] (sort_key timestamp ls)"
  have "date (snd kp) = fst kp" if "kp \<in> set A" for kp
    using that dailyData_entry [of "fst kp" "snd kp" tz "sort_key timestamp ls"]
    by (simp add: A_def date_foldl_applyLog emptyPoint_def)
  then have eq: "map date (map snd A) = map fst A"
    by simp
  have "distinct (map fst A)"
    unfolding A_def by (rule distinct_foldl_processLog) simp
  then have "distinct (map date (map snd A))"
    by (simp only: eq)
  then have "distinct (map date (sort_key date (map snd A)))"
    by (simp only: distinct_map_sort_key)
  then show ?thesis
    by (simp add: processChartData_def A_def)
qed

lemma sorted_dates_processChartData: "sorted (map date (processChartData tz ls))"
  by (simp add: processChartData_def)

lemma dates_list_processChartData:
  "map date (processChartData tz ls) = sort (remdups (map (dateOf tz) ls))"
proof (rule sorted_distinct_set_unique)
  show "set (map date (processChartData tz ls)) = set (sort (remdups (map (dateOf tz) ls)))"
    using dates_processChartData [of tz ls] by simp
qed (simp_all add: sorted_dates_processChartData distinct_dates_processChartData)

subsection \<open>The example of the specification, for any time zone\<close>

lemma lastLevel_single:
  assumes "set vs = {a}"
  shows "lastLevel vs = Some a"
proof -
  have "vs \<noteq> []" using assms by auto
  then have "last vs \<in> set vs" by (rule last_in_set)
  then show ?thesis using assms \<open>vs \<noteq> []\<close> by (simp add: lastLevel_def)
qed

lemma dailyMax_empty: "set vs = {} \<Longrightarrow> dailyMax vs = None"
  by (simp add: dailyMax_def)

lemma set_stressOn_sort: "set (stressOn tz d (sort_key f ls)) = set (stressOn tz d ls)"
  by (simp add: stressOn_def logsOn_def set_map_filter)

lemma processChartData_example:
  assumes d1: "formatTimestampToDateString tz t1 = ''2024-01-01''"
      and d2: "formatTimestampToDateString tz t2 = ''2024-01-01''"
      and d3: "formatTimestampToDateString tz t3 = ''2024-01-02''"
  shows "processChartData tz
            [\<lparr>id' = i1, timestamp = t1, body = SymptomLog bm1 (Some 3) None u1 n1\<rparr>,
             \<lparr>id' = i2, timestamp = t2, body = SymptomLog bm2 (Some 5) None u2 n2\<rparr>,
             \<lparr>id' = i3, timestamp = t3, body = StressLog 2 n3\<rparr>]
          = [\<lparr>date = ''2024-01-01'', cramps = Some 5, bloating = None, stress = None\<rparr>,
             \<lparr>date = ''2024-01-02'', cramps = None, bloating = None, stress = Some 2\<rparr>]"
proof -
  define L where "L = [\<lparr>id' = i1, timestamp = t1, body = SymptomLog bm1 (Some 3) None u1 n1\<rparr>,
             \<lparr>id' = i2, timestamp = t2, body = SymptomLog bm2 (Some 5) None u2 n2\<rparr>,
             \<lparr>id' = i3, timestamp = t3, body = StressLog 2 n3\<rparr>]"
  have "map date (processChartData tz L) = sort (remdups (map (dateOf tz) L))"
    by (rule dates_list_processChartData)
  also have "\<dots> = [''2024-01-01'', ''2024-01-02'']"
    by (simp add: L_def dateOf_def d1 d2 d3)
  finally obtain p1 p2 where out: "processChartData tz L = [p1, p2]"
    and p1: "date p1 = ''2024-01-01''" and p2: "date p2 = ''2024-01-02''"
    by auto
  have pts: "set (processChartData tz L) = dayPoint tz L ` dateOf tz ` set L"
    by (rule set_processChartData)
  have "p1 \<in> dayPoint tz L ` dateOf tz ` set L" "p2 \<in> dayPoint tz L ` dateOf tz ` set L"
    using pts out by auto
  then have e1: "p1 = dayPoint tz L ''2024-01-01''" and e2: "p2 = dayPoint tz L ''2024-01-02''"
    using p1 p2 by (auto simp: date_dayPoint)
  have sets:
    "set (crampsOn tz ''2024-01-01'' (sort_key timestamp L)) = {3, 5}"
    "set (bloatingOn tz ''2024-01-01'' (sort_key timestamp L)) = {}"
    "set (stressOn tz ''2024-01-01'' (sort_key timestamp L)) = {}"
    "set (crampsOn tz ''2024-01-02'' (sort_key timestamp L)) = {}"
    "set (bloatingOn tz ''2024-01-02'' (sort_key timestamp L)) = {}"
    "set (stressOn tz ''2024-01-02'' (sort_key timestamp L)) = {2}"
    unfolding set_crampsOn_sort set_bloatingOn_sort set_stressOn_sort
    by (simp_all add: L_def crampsOn_def bloatingOn_def stressOn_def logsOn_def dateOf_def d1 d2 d3
        crampsOf_def bloatingOf_def stressOf_def)
  have "dailyMax (crampsOn tz ''2024-01-01'' (sort_key timestamp L)) = Some 5"
    using sets(1) by (auto simp: dailyMax_def)
  moreover have "\<forall>v \<in> set (crampsOn tz ''2024-01-01'' (sort_key timestamp L)). 0 \<le> v"
    using sets(1) by simp
  ultimately have c1: "cramps p1 = Some 5"
    by (simp add: e1 cramps_dayPoint foldl_maxStep_dailyMax)
  have b1: "bloating p1 = None"
    using sets(2) by (simp add: e1 bloating_dayPoint)
  have s1: "stress p1 = None"
    using sets(3) by (simp add: e1 stress_dayPoint lastLevel_def)
  have c2: "cramps p2 = None"
    using sets(4) by (simp add: e2 cramps_dayPoint)
  have b2: "bloating p2 = None"
    using sets(5) by (simp add: e2 bloating_dayPoint)
  have s2: "stress p2 = Some 2"
    using sets(6) by (simp add: e2 stress_dayPoint lastLevel_single)
  have "p1 = \<lparr>date = ''2024-01-01'', cramps = Some 5, bloating = None, stress = None\<rparr>"
    using p1 c1 b1 s1 by (cases p1) simp
  moreover have "p2 = \<lparr>date = ''2024-01-02'', cramps = None, bloating = None, stress = Some 2\<rparr>"
    using p2 c2 b2 s2 by (cases p2) simp
  ultimately show ?thesis
    using out by (simp add: L_def)
qed

subsection \<open>Daily maxima\<close>

text \<open>
  Claim C1. When every defined \<open>crampsSeverity\<close> and \<open>bloatingSeverity\<close> of the input is
  an integer in \<open>0..5\<close>, the aggregation has a point for exactly the dates of the input,
  and at each point \<open>cramps\<close> is the maximum of the cramps severities that the symptom
  entries of that date define, \<open>null\<close> when none of them defines one (likewise
  \<open>bloating\<close>); a recorded \<open>0\<close> therefore gives \<open>0\<close>, not \<open>null\<close>. The example of the
  specification (two symptom entries on 2024-01-01 with cramps 3 and 5, one stress entry
  of level 2 on 2024-01-02) aggregates to the two points the specification lists, whatever
  the time zone, the times of day, the identifiers and the remaining fields are.
\<close>

theorem processChartData_daily_maximum:
  assumes "\<forall>log \<in> set ls. severityInRange (crampsOf log) \<and> severityInRange (bloatingOf log)"
  shows "date ` set (processChartData tz ls) = dateOf tz ` set ls
       \<and> (\<forall>p \<in> set (processChartData tz ls).
             cramps p = dailyMax (crampsOn tz (date p) ls)
           \<and> bloating p = dailyMax (bloatingOn tz (date p) ls))
       \<and> (formatTimestampToDateString tz t1 = ''2024-01-01''
            \<and> formatTimestampToDateString tz t2 = ''2024-01-01''
            \<and> formatTimestampToDateString tz t3 = ''2024-01-02''
          \<longrightarrow> processChartData tz
                [\<lparr>id' = i1, timestamp = t1, body = SymptomLog bm1 (Some 3) None u1 n1\<rparr>,
                 \<lparr>id' = i2, timestamp = t2, body = SymptomLog bm2 (Some 5) None u2 n2\<rparr>,
                 \<lparr>id' = i3, timestamp = t3, body = StressLog 2 n3\<rparr>]
              = [\<lparr>date = ''2024-01-01'', cramps = Some 5, bloating = None, stress = None\<rparr>,
                 \<lparr>date = ''2024-01-02'', cramps = None, bloating = None, stress = Some 2\<rparr>])"
proof (intro conjI ballI impI)
  show "date ` set (processChartData tz ls) = dateOf tz ` set ls"
    by (rule dates_processChartData)
next
  fix p assume "p \<in> set (processChartData tz ls)"
  then obtain k where p: "p = dayPoint tz ls k"
    by (auto simp: set_processChartData)
  have k: "date p = k" by (simp add: p date_dayPoint)
  have "\<forall>v \<in> set (crampsOn tz k (sort_key timestamp ls)). 0 \<le> v"
    using assms crampsOn_nonneg [of ls _ tz k] by (simp add: set_crampsOn_sort)
  then have "cramps p = dailyMax (crampsOn tz k (sort_key timestamp ls))"
    by (simp add: p cramps_dayPoint foldl_maxStep_dailyMax)
  also have "\<dots> = dailyMax (crampsOn tz k ls)"
    by (rule dailyMax_cong) (rule set_crampsOn_sort)
  finally show "cramps p = dailyMax (crampsOn tz (date p) ls)" by (simp add: k)
  have "\<forall>v \<in> set (bloatingOn tz k (sort_key timestamp ls)). 0 \<le> v"
    using assms bloatingOn_nonneg [of ls _ tz k] by (simp add: set_bloatingOn_sort)
  then have "bloating p = dailyMax (bloatingOn tz k (sort_key timestamp ls))"
    by (simp add: p bloating_dayPoint foldl_maxStep_dailyMax)
  also have "\<dots> = dailyMax (bloatingOn tz k ls)"
    by (rule dailyMax_cong) (rule set_bloatingOn_sort)
  finally show "bloating p = dailyMax (bloatingOn tz (date p) ls)" by (simp add: k)
next
  assume "formatTimestampToDateString tz t1 = ''2024-01-01''
            \<and> formatTimestampToDateString tz t2 = ''2024-01-01''
            \<and> formatTimestampToDateString tz t3 = ''2024-01-02''"
  then show "processChartData tz
                [\<lparr>id' = i1, timestamp = t1, body = SymptomLog bm1 (Some 3) None u1 n1\<rparr>,
                 \<lparr>id' = i2, timestamp = t2, body = SymptomLog bm2 (Some 5) None u2 n2\<rparr>,
                 \<lparr>id' = i3, timestamp = t3, body = StressLog 2 n3\<rparr>]
              = [\<lparr>date = ''2024-01-01'', cramps = Some 5, bloating = None, stress = None\<rparr>,
                 \<lparr>date = ''2024-01-02'', cramps = None, bloating = None, stress = Some 2\<rparr>]"
    by (simp add: processChartData_example)
qed

text \<open>
  A day with a recorded cramps severity \<open>0\<close> and a day with no symptom entry, and the
  example of the specification at concrete times, in UTC.
\<close>

theorem processChartData_daily_maximum_witness:
  "list_all (\<lambda>log. severityInRange (crampsOf log) \<and> severityInRange (bloatingOf log))
      [\<lparr>id' = ''a'', timestamp = 1704096000000, body = SymptomLog None (Some 0) (Some 4) None None\<rparr>,
       \<lparr>id' = ''b'', timestamp = 1704139200000, body = SymptomLog (Some type4) None (Some 2) None None\<rparr>,
       \<lparr>id' = ''c'', timestamp = 1704153600000, body = IntakeLog ''tea'' None None\<rparr>]
   \<and> processChartData utcDate
         [\<lparr>id' = ''a'', timestamp = 1704096000000, body = SymptomLog None (Some 0) (Some 4) None None\<rparr>,
          \<lparr>id' = ''b'', timestamp = 1704139200000, body = SymptomLog (Some type4) None (Some 2) None None\<rparr>,
          \<lparr>id' = ''c'', timestamp = 1704153600000, body = IntakeLog ''tea'' None None\<rparr>]
       = [\<lparr>date = ''2024-01-01'', cramps = Some 0, bloating = Some 4, stress = None\<rparr>,
          \<lparr>date = ''2024-01-02'', cramps = None, bloating = None, stress = None\<rparr>]
   \<and> dailyMax (crampsOn utcDate ''2024-01-01''
         [\<lparr>id' = ''a'', timestamp = 1704096000000, body = SymptomLog None (Some 0) (Some 4) None None\<rparr>,
          \<lparr>id' = ''b'', timestamp = 1704139200000, body = SymptomLog (Some type4) None (Some 2) None None\<rparr>,
          \<lparr>id' = ''c'', timestamp = 1704153600000, body = IntakeLog ''tea'' None None\<rparr>]) = Some 0
   \<and> formatTimestampToDateString utcDate 1704096000000 = ''2024-01-01''
   \<and> formatTimestampToDateString utcDate 1704139200000 = ''2024-01-01''
   \<and> formatTimestampToDateString utcDate 1704153600000 = ''2024-01-02''
   \<and> processChartData utcDate
         [\<lparr>id' = ''a'', timestamp = 1704096000000, body = SymptomLog None (Some 3) None None None\<rparr>,
          \<lparr>id' = ''b'', timestamp = 1704139200000, body = SymptomLog None (Some 5) None None None\<rparr>,
          \<lparr>id' = ''c'', timestamp = 1704153600000, body = StressLog 2 None\<rparr>]
       = [\<lparr>date = ''2024-01-01'', cramps = Some 5, bloating = None, stress = None\<rparr>,
          \<lparr>date = ''2024-01-02'', cramps = None, bloating = None, stress = Some 2\<rparr>]"
proof -
  define L where "L = [\<lparr>id' = ''a'', timestamp = 1704096000000, body = SymptomLog None (Some 0) (Some 4) None None\<rparr>,
          \<lparr>id' = ''b'', timestamp = 1704139200000, body = SymptomLog (Some type4) None (Some 2) None None\<rparr>,
          \<lparr>id' = ''c'', timestamp = 1704153600000, body = IntakeLog ''tea'' None None\<rparr>]"
  have h: "\<forall>log \<in> set L. severityInRange (crampsOf log) \<and> severityInRange (bloatingOf log)"
    by (simp add: L_def severityInRange_def crampsOf_def bloatingOf_def)
  have out: "processChartData utcDate L
       = [\<lparr>date = ''2024-01-01'', cramps = Some 0, bloating = Some 4, stress = None\<rparr>,
          \<lparr>date = ''2024-01-02'', cramps = None, bloating = None, stress = None\<rparr>]"
    unfolding L_def by code_simp
  have f: "formatTimestampToDateString utcDate 1704096000000 = ''2024-01-01''"
    "formatTimestampToDateString utcDate 1704139200000 = ''2024-01-01''"
    "formatTimestampToDateString utcDate 1704153600000 = ''2024-01-02''"
    by code_simp+
  note T = processChartData_daily_maximum [OF h, where tz = utcDate
      and ?t1.0 = 1704096000000 and ?t2.0 = 1704139200000 and ?t3.0 = 1704153600000
      and ?i1.0 = "''a''" and ?i2.0 = "''b''" and ?i3.0 = "''c''"
      and ?bm1.0 = None and ?bm2.0 = None and ?u1.0 = None and ?u2.0 = None
      and ?n1.0 = None and ?n2.0 = None and ?n3.0 = None]
  have "dailyMax (crampsOn utcDate ''2024-01-01'' L) = Some 0"
    using T out by simp
  moreover have "processChartData utcDate
         [\<lparr>id' = ''a'', timestamp = 1704096000000, body = SymptomLog None (Some 3) None None None\<rparr>,
          \<lparr>id' = ''b'', timestamp = 1704139200000, body = SymptomLog None (Some 5) None None None\<rparr>,
          \<lparr>id' = ''c'', timestamp = 1704153600000, body = StressLog 2 None\<rparr>]
       = [\<lparr>date = ''2024-01-01'', cramps = Some 5, bloating = None, stress = None\<rparr>,
          \<lparr>date = ''2024-01-02'', cramps = None, bloating = None, stress = Some 2\<rparr>]"
    using T f by simp
  moreover have "list_all (\<lambda>log. severityInRange (crampsOf log) \<and> severityInRange (bloatingOf log)) L"
    using h by (simp add: list_all_iff)
  ultimately show ?thesis
    using out f unfolding L_def by simp
qed

subsection \<open>Stress channel\<close>

text \<open>
  Claim C9. At every point of the aggregation, \<open>stress\<close> is the level of the stress entry
  of that date that comes last when the entries are processed in ascending order of
  timestamp (\<open>null\<close> when the date has no stress entry): with one stress entry on the
  date it is that entry's level, with several the last one wins.
\<close>

theorem processChartData_last_stress:
  "\<forall>p \<in> set (processChartData tz ls).
     stress p = lastLevel (stressOn tz (date p) (sort_key timestamp ls))"
  by (auto simp: set_processChartData stress_dayPoint date_dayPoint)

text \<open>Two stress entries on one day, the later one listed first: its level \<open>4\<close> wins.\<close>

theorem processChartData_last_stress_witness:
  "\<lparr>date = ''2024-01-01'', cramps = None, bloating = None, stress = Some 4\<rparr>
     \<in> set (processChartData utcDate
          [\<lparr>id' = ''a'', timestamp = 1704139200000, body = StressLog 4 None\<rparr>,
           \<lparr>id' = ''b'', timestamp = 1704096000000, body = StressLog 1 None\<rparr>])
   \<and> lastLevel (stressOn utcDate ''2024-01-01'' (sort_key timestamp
          [\<lparr>id' = ''a'', timestamp = 1704139200000, body = StressLog 4 None\<rparr>,
           \<lparr>id' = ''b'', timestamp = 1704096000000, body = StressLog 1 None\<rparr>])) = Some 4"
proof -
  have mem: "\<lparr>date = ''2024-01-01'', cramps = None, bloating = None, stress = Some 4\<rparr>
     \<in> set (processChartData utcDate
          [\<lparr>id' = ''a'', timestamp = 1704139200000, body = StressLog 4 None\<rparr>,
           \<lparr>id' = ''b'', timestamp = 1704096000000, body = StressLog 1 None\<rparr>])"
    by code_simp
  from processChartData_last_stress [rule_format, OF mem] mem
  show ?thesis by simp
qed

subsection \<open>Date strings and the order of the calendar\<close>

lemma of_char_digitChar: "n < 10 \<Longrightarrow> of_char (digitChar n) = (48 + n :: nat)"
proof -
  assume "n < 10"
  then have "n \<in> {0, 1, 2, 3, 4, 5, 6, 7, 8, 9}" by auto
  then show ?thesis by (auto simp: digitChar_def)
qed

lemma digitChar_less_iff: "a < 10 \<Longrightarrow> b < 10 \<Longrightarrow> digitChar a < digitChar b \<longleftrightarrow> a < b"
  by (simp add: less_char_def of_char_digitChar)

lemma digitChar_eq_iff: "a < 10 \<Longrightarrow> b < 10 \<Longrightarrow> digitChar a = digitChar b \<longleftrightarrow> a = b"
  by (metis of_char_digitChar add_left_cancel)

lemma append_less_same_length:
  "length a = length b \<Longrightarrow> (a @ x < b @ y \<longleftrightarrow> a < b \<or> (a = b \<and> x < y))" for a b :: string
  by (induction a b rule: list_induct2) auto

lemma two_digits:
  assumes "k < 100"
  shows "padStart 2 (CHR ''0'') (natToString k) = [digitChar (k div 10), digitChar (k mod 10)]"
proof (cases "k < 10")
  case True
  then show ?thesis by (simp add: natToString.simps [of k] padStart_def digitChar_def)
next
  case False
  then have "k div 10 < 10" using assms by simp
  then show ?thesis using False
    by (simp add: natToString.simps [of k] natToString.simps [of "k div 10"] padStart_def)
qed

lemma four_digits:
  assumes "1000 \<le> k" "k < 10000"
  shows "natToString k = [digitChar (k div 1000), digitChar (k div 100 mod 10),
                          digitChar (k div 10 mod 10), digitChar (k mod 10)]"
proof -
  have a: "\<not> k < 10" "\<not> k div 10 < 10" "\<not> k div 10 div 10 < 10" "k div 10 div 10 div 10 < 10"
    using assms by simp_all
  have "natToString k = natToString (k div 10) @ [digitChar (k mod 10)]"
    using a(1) by (simp add: natToString.simps [of k])
  also have "natToString (k div 10) = natToString (k div 10 div 10) @ [digitChar (k div 10 mod 10)]"
    using a(2) by (simp add: natToString.simps [of "k div 10"])
  also have "natToString (k div 10 div 10)
      = natToString (k div 10 div 10 div 10) @ [digitChar (k div 10 div 10 mod 10)]"
    using a(3) by (simp add: natToString.simps [of "k div 10 div 10"])
  also have "natToString (k div 10 div 10 div 10) = [digitChar (k div 10 div 10 div 10)]"
    using a(4) by (simp add: natToString.simps [of "k div 10 div 10 div 10"])
  finally show ?thesis
    by (simp add: div_mult2_eq [symmetric])
qed

lemma digits_eq: "k = l \<longleftrightarrow> k div 10 = l div 10 \<and> k mod 10 = l mod 10" for k l :: nat
  by (metis div_mult_mod_eq)

lemma digits_less: "k < l \<longleftrightarrow> k div 10 < l div 10 \<or> (k div 10 = l div 10 \<and> k mod 10 < l mod 10)"
  for k l :: nat
proof -
  have k: "k = 10 * (k div 10) + k mod 10" and l: "l = 10 * (l div 10) + l mod 10"
    by simp_all
  have "k mod 10 < 10" "l mod 10 < 10" by simp_all
  then show ?thesis using k l by linarith
qed

lemma natToString_nonempty: "natToString n \<noteq> []"
  by (simp add: natToString.simps [of n])

lemma length_natToString_one: "length (natToString n) = Suc 0 \<longleftrightarrow> n < 10"
proof (cases "n < 10")
  case True
  then show ?thesis by (simp add: natToString.simps [of n])
next
  case False
  have "length (natToString (n div 10)) \<noteq> 0"
    using natToString_nonempty [of "n div 10"] by simp
  then show ?thesis using False by (simp add: natToString.simps [of n])
qed

lemma natToString_step: "\<not> n < 10 \<Longrightarrow> natToString n = natToString (n div 10) @ [digitChar (n mod 10)]"
  by (simp add: natToString.simps [of n])

lemma natToString_digit: "n < 10 \<Longrightarrow> natToString n = [digitChar n]"
  by (simp add: natToString.simps [of n])

lemma natToString_inj: "natToString n = natToString m \<Longrightarrow> n = m"
proof (induction n arbitrary: m rule: natToString.induct)
  case (1 n)
  show ?case
  proof (cases "n < 10")
    case True
    then have "length (natToString m) = 1"
      using "1.prems" [symmetric] by (simp add: natToString_digit)
    then have m: "m < 10" by (simp add: length_natToString_one)
    then show ?thesis using True "1.prems" by (simp add: natToString_digit digitChar_eq_iff)
  next
    case False
    then have "length (natToString m) \<noteq> 1"
      using "1.prems" [symmetric] length_natToString_one [of n] by simp
    then have m: "\<not> m < 10" by (simp add: length_natToString_one)
    from "1.prems" have "natToString (n div 10) @ [digitChar (n mod 10)]
        = natToString (m div 10) @ [digitChar (m mod 10)]"
      by (simp only: natToString_step [OF False] natToString_step [OF m])
    then have "natToString (n div 10) = natToString (m div 10)"
      and "digitChar (n mod 10) = digitChar (m mod 10)"
      by simp_all
    then have "n div 10 = m div 10" and "n mod 10 = m mod 10"
      using "1.IH" [OF False] by (simp_all add: digitChar_eq_iff)
    then show ?thesis by (simp add: digits_eq [of n m])
  qed
qed


lemma natToString_less_iff:
  "length (natToString n) = length (natToString m) \<Longrightarrow> natToString n < natToString m \<longleftrightarrow> n < m"
proof (induction n arbitrary: m rule: natToString.induct)
  case (1 n)
  show ?case
  proof (cases "n < 10")
    case True
    then have "length (natToString m) = 1"
      using "1.prems" [symmetric] by (simp add: natToString_digit)
    then have m: "m < 10" by (simp add: length_natToString_one)
    then show ?thesis using True by (simp add: natToString_digit digitChar_less_iff)
  next
    case False
    then have "length (natToString m) \<noteq> 1"
      using "1.prems" [symmetric] length_natToString_one [of n] by simp
    then have m: "\<not> m < 10" by (simp add: length_natToString_one)
    have len: "length (natToString (n div 10)) = length (natToString (m div 10))"
      using "1.prems" by (simp only: natToString_step [OF False] natToString_step [OF m]) simp
    have "natToString n < natToString m \<longleftrightarrow>
        natToString (n div 10) < natToString (m div 10)
        \<or> (natToString (n div 10) = natToString (m div 10)
            \<and> [digitChar (n mod 10)] < [digitChar (m mod 10)])"
      by (simp only: natToString_step [OF False] natToString_step [OF m]
          append_less_same_length [OF len])
    also have "\<dots> \<longleftrightarrow> n div 10 < m div 10 \<or> (n div 10 = m div 10 \<and> n mod 10 < m mod 10)"
      using "1.IH" [OF False len] natToString_inj [of "n div 10" "m div 10"]
      by (auto simp: digitChar_less_iff)
    also have "\<dots> \<longleftrightarrow> n < m"
      by (rule digits_less [symmetric])
    finally show ?thesis .
  qed
qed

lemma two_digits_less:
  assumes "k < 100" "l < 100"
  shows "[digitChar (k div 10), digitChar (k mod 10)] @ x < [digitChar (l div 10), digitChar (l mod 10)] @ y
         \<longleftrightarrow> k < l \<or> (k = l \<and> x < y)"
proof -
  have b: "k div 10 < 10" "l div 10 < 10" "k mod 10 < 10" "l mod 10 < 10"
    using assms by simp_all
  show ?thesis
    using digits_less [of k l] digits_eq [of k l]
    by (auto simp: digitChar_less_iff [OF b(1) b(2)] digitChar_eq_iff [OF b(1) b(2)]
        digitChar_less_iff [OF b(3) b(4)] digitChar_eq_iff [OF b(3) b(4)])
qed

lemma two_digits_eq:
  assumes "k < 100" "l < 100"
  shows "[digitChar (k div 10), digitChar (k mod 10)] = [digitChar (l div 10), digitChar (l mod 10)]
         \<longleftrightarrow> k = l"
proof -
  have b: "k div 10 < 10" "l div 10 < 10" "k mod 10 < 10" "l mod 10 < 10"
    using assms by simp_all
  show ?thesis
    using digits_eq [of k l]
    by (auto simp: digitChar_eq_iff [OF b(1) b(2)] digitChar_eq_iff [OF b(3) b(4)])
qed

lemma format_valid:
  assumes "validDate (tz t)"
  shows "formatTimestampToDateString tz t
     = natToString (nat (getFullYear (tz t)))
       @ (CHR ''-'' # ([digitChar (nat (getMonth (tz t) + 1) div 10), digitChar (nat (getMonth (tz t) + 1) mod 10)]
       @ (CHR ''-'' # ([digitChar (nat (getDate (tz t)) div 10), digitChar (nat (getDate (tz t)) mod 10)] @ []))))"
proof -
  have m: "nat (getMonth (tz t) + 1) < 100" and d: "nat (getDate (tz t)) < 100"
    and s: "\<not> getFullYear (tz t) < 0" "\<not> getMonth (tz t) + 1 < 0" "\<not> getDate (tz t) < 0"
    using assms by (auto simp: validDate_def)
  show ?thesis
    using two_digits [OF m] two_digits [OF d] s
    by (simp add: formatTimestampToDateString_def numberToString_def Let_def)
qed

lemma length_year:
  assumes "validDate d"
  shows "length (natToString (nat (getFullYear d))) = 4"
proof -
  have "1000 \<le> nat (getFullYear d)" "nat (getFullYear d) < 10000"
    using assms by (auto simp: validDate_def)
  then show ?thesis by (simp add: four_digits)
qed

lemma format_less_iff:
  assumes a: "validDate (tz t)" and b: "validDate (tz t')"
  shows "formatTimestampToDateString tz t < formatTimestampToDateString tz t'
         \<longleftrightarrow> calendarBefore (tz t) (tz t')"
proof -
  have len: "length (natToString (nat (getFullYear (tz t))))
      = length (natToString (nat (getFullYear (tz t'))))"
    by (simp add: length_year [OF a] length_year [OF b])
  have r: "nat (getMonth (tz t) + 1) < 100" "nat (getMonth (tz t') + 1) < 100"
    "nat (getDate (tz t)) < 100" "nat (getDate (tz t')) < 100"
    using a b by (auto simp: validDate_def)
  have pos: "0 \<le> getFullYear (tz t)" "0 \<le> getFullYear (tz t')"
    "0 \<le> getMonth (tz t)" "0 \<le> getMonth (tz t')" "0 \<le> getDate (tz t)" "0 \<le> getDate (tz t')"
    using a b by (auto simp: validDate_def)
  have y: "natToString (nat (getFullYear (tz t))) = natToString (nat (getFullYear (tz t')))
      \<longleftrightarrow> getFullYear (tz t) = getFullYear (tz t')"
    using natToString_inj [of "nat (getFullYear (tz t))" "nat (getFullYear (tz t'))"] pos by auto
  show ?thesis
    unfolding format_valid [of tz t, OF a] format_valid [of tz t', OF b] append_less_same_length [OF len]
      natToString_less_iff [OF len] y Cons_less_Cons
      two_digits_less [OF r(1) r(2)] two_digits_less [OF r(3) r(4)]
    using pos by (auto simp: calendarBefore_def)
qed

lemma format_eq_iff:
  assumes a: "validDate (tz t)" and b: "validDate (tz t')"
  shows "formatTimestampToDateString tz t = formatTimestampToDateString tz t'
         \<longleftrightarrow> tz t = tz t'"
proof -
  have "\<not> formatTimestampToDateString tz t < formatTimestampToDateString tz t'
      \<and> \<not> formatTimestampToDateString tz t' < formatTimestampToDateString tz t
      \<longleftrightarrow> tz t = tz t'"
    unfolding format_less_iff [of tz t t', OF a b] format_less_iff [of tz t' t, OF b a]
    by (cases "tz t"; cases "tz t'") (auto simp: calendarBefore_def)
  then show ?thesis
    by (metis (no_types) less_irrefl linorder_neqE)
qed

lemma dateOf_less_iff:
  assumes "\<forall>e \<in> set ls. validDate (tz (timestamp e))" and "e1 \<in> set ls" and "e2 \<in> set ls"
  shows "dateOf tz e1 < dateOf tz e2 \<longleftrightarrow> calendarBefore (tz (timestamp e1)) (tz (timestamp e2))"
  using assms format_less_iff [of tz "timestamp e1" "timestamp e2"] by (simp add: dateOf_def)

lemma dateOf_eq_iff:
  assumes "\<forall>e \<in> set ls. validDate (tz (timestamp e))" and "e1 \<in> set ls" and "e2 \<in> set ls"
  shows "dateOf tz e1 = dateOf tz e2 \<longleftrightarrow> tz (timestamp e1) = tz (timestamp e2)"
  using assms format_eq_iff [of tz "timestamp e1" "timestamp e2"] by (simp add: dateOf_def)

lemma strictly_ascending_processChartData:
  "sorted_wrt (\<lambda>p q. date p < date q) (processChartData tz ls)"
proof -
  have "sorted_wrt (<) (map date (processChartData tz ls))"
    using sorted_dates_processChartData [of tz ls] distinct_dates_processChartData [of tz ls]
    by (simp add: strict_sorted_iff)
  then show ?thesis
    by (simp add: sorted_wrt_map)
qed

subsection \<open>Order of the dates\<close>

text \<open>
  Claim C8. The aggregation has exactly one point per date string of the input and is
  sorted by date string, strictly ascending (\<open>dates_list_processChartData\<close>,
  \<open>strictly_ascending_processChartData\<close>). For dates whose year has four digits, two
  entries have the same date string exactly when they fall on the same calendar date, and
  the order of the strings is the order of the calendar (\<open>dateOf_eq_iff\<close>,
  \<open>dateOf_less_iff\<close>). It is not so for every input: \<open>formatTimestampToDateString\<close>, which
  is documented to give \<open>YYYY-MM-DD\<close>, pads the month and the day with zeros but not
  the year. An entry dated in the year 999 is formatted \<open>999-01-01\<close>, and its point comes
  after the point of 2024-01-01.
\<close>

theorem processChartData_unpadded_year:
  "formatTimestampToDateString utcDate (- 30641760000000) = ''999-01-01''
   \<and> getFullYear (utcDate (- 30641760000000)) < getFullYear (utcDate 1704067200000)
   \<and> processChartData utcDate
         [\<lparr>id' = ''a'', timestamp = - 30641760000000, body = SymptomLog None (Some 1) None None None\<rparr>,
          \<lparr>id' = ''b'', timestamp = 1704067200000, body = SymptomLog None (Some 2) None None None\<rparr>]
       = [\<lparr>date = ''2024-01-01'', cramps = Some 2, bloating = None, stress = None\<rparr>,
          \<lparr>date = ''999-01-01'', cramps = Some 1, bloating = None, stress = None\<rparr>]"
  by code_simp

section \<open>Properties of the CRUD operations\<close>

subsection \<open>The stored collection after each operation\<close>

lemma logs_alert: "logs (alert msg s) = logs s"
  by (simp add: alert_def)

lemma alerts_alert: "alerts (alert msg s) = alerts s @ [msg]"
  by (simp add: alert_def)

lemma sorted_wrt_sortDescending:
  "sorted_wrt (\<lambda>a b. timestamp b \<le> timestamp a) (sortDescending xs)"
proof -
  have "sorted (map (\<lambda>l. - timestamp l) (sortDescending xs))"
    by (simp add: sortDescending_def)
  then show ?thesis
    by (simp add: sorted_map)
qed

lemma mset_sortDescending: "mset (sortDescending xs) = mset xs"
  by (simp add: sortDescending_def)

lemma set_sortDescending: "set (sortDescending xs) = set xs"
  by (simp add: sortDescending_def)

lemma logs_createLogEntry:
  "logs (createLogEntry uuid now entryData s) =
     sortDescending (logs s @ [\<lparr>id' = uuid, timestamp = now, body = body entryData\<rparr>])"
  by (cases entryData) (simp add: createLogEntry_def setLogs_def Let_def)

lemma logs_updateLogEntry:
  "logs (updateLogEntry tz now u s) =
     sortDescending (map (\<lambda>log. if id' log = id' u then u else log) (logs s))"
  by (simp add: updateLogEntry_def setLogs_def Let_def)

lemma logs_deleteLogEntry:
  "logs (deleteLogEntry tz now i s) = filter (\<lambda>log. id' log \<noteq> i) (logs s)"
  by (simp add: deleteLogEntry_def setLogs_def Let_def split: option.splits)

subsection \<open>Create\<close>

text \<open>
  Claim C2. Whatever entry data the caller supplies, \<open>createLogEntry\<close> stores an entry whose
  \<open>id\<close> is the identifier just generated and whose \<open>timestamp\<close> is the creation moment,
  not the \<open>id\<close> or \<open>timestamp\<close> that the data may carry; the new collection consists of
  the entries it had, unchanged, and the new entry, and is sorted by descending
  timestamp. That the generated identifier differs from the stored ones is a property
  of the generator, which is outside the repository.
\<close>

theorem createLogEntry_adds_fresh_entry:
  "mset (logs (createLogEntry uuid now entryData s)) =
     mset (logs s) + {#\<lparr>id' = uuid, timestamp = now, body = body entryData\<rparr>#}
   \<and> sorted_wrt (\<lambda>a b. timestamp b \<le> timestamp a) (logs (createLogEntry uuid now entryData s))"
  by (simp add: logs_createLogEntry mset_sortDescending sorted_wrt_sortDescending)

subsection \<open>Delete\<close>

text \<open>
  Claim C7. \<open>deleteLogEntry\<close> removes exactly the entries whose \<open>id\<close> is the given one and
  keeps the others as they are and in their order; when no entry has that \<open>id\<close> the
  collection is unchanged. The operation has no error path.
\<close>

theorem deleteLogEntry_removes_matching:
  "logs (deleteLogEntry tz now i s) = filter (\<lambda>log. id' log \<noteq> i) (logs s)
   \<and> (i \<notin> id' ` set (logs s) \<longrightarrow> logs (deleteLogEntry tz now i s) = logs s)"
  by (auto simp: logs_deleteLogEntry filter_id_conv)

text \<open>Deleting an identifier that no entry carries.\<close>

theorem deleteLogEntry_removes_matching_witness:
  "''zz'' \<notin> id' ` set (logs (stateOf [stressEntry1, intakeEntry1] None False))
   \<and> logs (deleteLogEntry utcDate 1704132000000 ''zz'' (stateOf [stressEntry1, intakeEntry1] None False))
     = [stressEntry1, intakeEntry1]"
proof -
  have h: "''zz'' \<notin> id' ` set (logs (stateOf [stressEntry1, intakeEntry1] None False))"
    by (simp add: stateOf_def stressEntry1_def intakeEntry1_def)
  from h deleteLogEntry_removes_matching [of utcDate 1704132000000 "''zz''"
        "stateOf [stressEntry1, intakeEntry1] None False"]
  show ?thesis by (auto simp: stateOf_def)
qed

subsection \<open>Export\<close>

text \<open>
  Claim C5. \<open>handleExportData\<close> never changes the stored collection. On an empty
  collection it offers no file and alerts that there is no data; on a non-empty one it
  offers one file whose content is the collection in non-decreasing order of timestamp.
\<close>

theorem handleExportData_read_only:
  "logs (handleExportData toISOString now s) = logs s
   \<and> (logs s = [] \<longrightarrow>
        downloads (handleExportData toISOString now s) = downloads s
      \<and> alerts (handleExportData toISOString now s) = alerts s @ [''No data to export.''])
   \<and> (logs s \<noteq> [] \<longrightarrow>
        (\<exists>name. downloads (handleExportData toISOString now s)
                  = downloads s @ [(name, sort_key timestamp (logs s))])
      \<and> sorted (map timestamp (sort_key timestamp (logs s)))
      \<and> mset (sort_key timestamp (logs s)) = mset (logs s)
      \<and> alerts (handleExportData toISOString now s) = alerts s)"
  by (simp add: handleExportData_def alert_def Let_def)

text \<open>An export of the empty collection and an export of two entries stored newest first.\<close>

theorem handleExportData_read_only_witness:
  "logs (stateOf [] None False) = []
   \<and> handleExportData (\<lambda>t. ''2024-01-03T10:00:00.000Z'') 1704276000000 (stateOf [] None False)
     = (stateOf [] None False)\<lparr>alerts := [''No data to export.'']\<rparr>
   \<and> logs (stateOf [stressEntry1, intakeEntry1] None False) \<noteq> []
   \<and> logs (handleExportData (\<lambda>t. ''2024-01-03T10:00:00.000Z'') 1704276000000
        (stateOf [stressEntry1, intakeEntry1] None False)) = [stressEntry1, intakeEntry1]
   \<and> downloads (handleExportData (\<lambda>t. ''2024-01-03T10:00:00.000Z'') 1704276000000
        (stateOf [stressEntry1, intakeEntry1] None False))
     = [(''ibs_tracker_data_2024-01-03.json'', [intakeEntry1, stressEntry1])]"
proof -
  define iso :: "int \<Rightarrow> string" where "iso = (\<lambda>t. ''2024-01-03T10:00:00.000Z'')"
  have h0: "logs (stateOf [] None False) = []"
    and h1: "logs (stateOf [stressEntry1, intakeEntry1] None False) \<noteq> []"
    by (simp_all add: stateOf_def)
  have srt: "sort_key timestamp [stressEntry1, intakeEntry1] = [intakeEntry1, stressEntry1]"
    by (simp add: stressEntry1_def intakeEntry1_def)
  have e0: "handleExportData iso 1704276000000 (stateOf [] None False)
              = (stateOf [] None False)\<lparr>alerts := [''No data to export.'']\<rparr>"
    using h0 handleExportData_read_only [of iso 1704276000000 "stateOf [] None False"]
    by (simp add: handleExportData_def alert_def stateOf_def)
  have e1: "logs (handleExportData iso 1704276000000 (stateOf [stressEntry1, intakeEntry1] None False))
              = [stressEntry1, intakeEntry1]"
    using h1 handleExportData_read_only [of iso 1704276000000 "stateOf [stressEntry1, intakeEntry1] None False"]
    by (simp add: stateOf_def)
  have e2: "downloads (handleExportData iso 1704276000000 (stateOf [stressEntry1, intakeEntry1] None False))
              = [(''ibs_tracker_data_2024-01-03.json'', [intakeEntry1, stressEntry1])]"
    using srt by (simp add: handleExportData_def stateOf_def iso_def Let_def)
  show ?thesis
    using h0 h1 e0 e1 e2 unfolding iso_def by simp
qed

subsection \<open>Update\<close>

lemma filter_other_ids_map:
  "filter (\<lambda>x. id' x \<noteq> id' u) (map (\<lambda>log. if id' log = id' u then u else log) xs)
     = filter (\<lambda>x. id' x \<noteq> id' u) xs"
  by (induction xs) auto

lemma updateLogEntry_replaces_entry:
  assumes "e \<in> set (logs s)" and "id' u = id' e"
  shows "u \<in> set (logs (updateLogEntry tz now u s))
       \<and> (\<forall>x \<in> set (logs (updateLogEntry tz now u s)). id' x = id' e \<longrightarrow> x = u)
       \<and> mset (filter (\<lambda>x. id' x \<noteq> id' e) (logs (updateLogEntry tz now u s)))
           = mset (filter (\<lambda>x. id' x \<noteq> id' e) (logs s))"
proof -
  let ?g = "\<lambda>log. if id' log = id' u then u else log"
  have S: "set (logs (updateLogEntry tz now u s)) = ?g ` set (logs s)"
    by (simp add: logs_updateLogEntry set_sortDescending)
  have 1: "u \<in> set (logs (updateLogEntry tz now u s))"
    unfolding S using assms by (auto simp: image_iff)
  have 2: "\<forall>x \<in> set (logs (updateLogEntry tz now u s)). id' x = id' e \<longrightarrow> x = u"
    unfolding S using assms(2) by auto
  have "mset (filter (\<lambda>x. id' x \<noteq> id' u) (logs (updateLogEntry tz now u s)))
          = filter_mset (\<lambda>x. id' x \<noteq> id' u) (mset (map ?g (logs s)))"
    by (simp add: logs_updateLogEntry mset_sortDescending)
  also have "\<dots> = mset (filter (\<lambda>x. id' x \<noteq> id' u) (map ?g (logs s)))"
    by simp
  also have "\<dots> = mset (filter (\<lambda>x. id' x \<noteq> id' u) (logs s))"
    by (simp only: filter_other_ids_map)
  finally have 3: "mset (filter (\<lambda>x. id' x \<noteq> id' e) (logs (updateLogEntry tz now u s)))
           = mset (filter (\<lambda>x. id' x \<noteq> id' e) (logs s))"
    by (simp only: assms(2))
  from 1 2 3 show ?thesis by blast
qed

text \<open>
  What reaches \<open>updateLogEntry\<close>. A form is given the entry being edited only when it is
  of the form's kind, its data keep the \<open>id\<close> of that entry, and the handler adds the tag
  of its own kind: when the data carry an \<open>id\<close>, it is the \<open>id\<close> of the entry being edited
  and that entry has the kind of the form.
\<close>

lemma StressForm_edit_data:
  assumes "editingEntry s = Some e"
      and "StressForm_handleSubmit trim dateParse (stressInitialData s) st = OnSave d"
      and "id' d \<noteq> []"
  shows "id' (stressEntryData d) = id' e \<and> type' (stressEntryData d) = type' e"
  using assms
  by (auto simp: StressForm_handleSubmit_def stressInitialData_def stressEntryData_def type'_def Let_def
      split: option.splits LogBody.splits if_splits)

lemma SymptomForm_edit_data:
  assumes "editingEntry s = Some e"
      and "SymptomForm_handleSubmit trim dateParse (symptomInitialData s) st = OnSave d"
      and "id' d \<noteq> []"
  shows "id' (symptomEntryData d) = id' e \<and> type' (symptomEntryData d) = type' e"
  using assms
  by (auto simp: SymptomForm_handleSubmit_def symptomInitialData_def symptomEntryData_def type'_def Let_def
      split: option.splits LogBody.splits if_splits)

lemma IntakeForm_edit_data:
  assumes "editingEntry s = Some e"
      and "IntakeForm_handleSubmit trim dateParse (intakeInitialData s) st = OnSave d"
      and "id' d \<noteq> []"
  shows "id' (intakeEntryData d) = id' e \<and> type' (intakeEntryData d) = type' e"
  using assms
  by (auto simp: IntakeForm_handleSubmit_def intakeInitialData_def intakeEntryData_def type'_def Let_def
      split: option.splits LogBody.splits if_splits)

lemma submitStressForm_update:
  assumes "StressForm_handleSubmit trim dateParse (stressInitialData s) st = OnSave d"
      and "id' d \<noteq> []" and "timestamp d \<noteq> 0"
  shows "submitStressForm trim dateParse tz now uuid st s = updateLogEntry tz now (stressEntryData d) s"
  using assms by (simp add: submitStressForm_def handleSaveStress_def)

lemma submitSymptomForm_update:
  assumes "SymptomForm_handleSubmit trim dateParse (symptomInitialData s) st = OnSave d"
      and "id' d \<noteq> []" and "timestamp d \<noteq> 0"
  shows "submitSymptomForm trim dateParse tz now uuid st s = updateLogEntry tz now (symptomEntryData d) s"
  using assms by (simp add: submitSymptomForm_def handleSaveSymptom_def)

lemma submitIntakeForm_update:
  assumes "IntakeForm_handleSubmit trim dateParse (intakeInitialData s) st = OnSave d"
      and "id' d \<noteq> []" and "timestamp d \<noteq> 0"
  shows "submitIntakeForm trim dateParse tz now uuid st s = updateLogEntry tz now (intakeEntryData d) s"
  using assms by (simp add: submitIntakeForm_def handleSaveIntake_def)

text \<open>
  Claim C6. \<open>updateLogEntry\<close> is called by the three save handlers only, each time with the
  data of a form that is editing an entry. For every such update whose entry \<open>e\<close> is in the
  collection: the argument carries the \<open>id\<close> and the type of \<open>e\<close>; the resulting collection
  contains the argument; every entry of the result with that \<open>id\<close> is the argument, so it
  has the same \<open>id\<close> and the same type as before and its timestamp and other fields are
  those of the update; and the entries with another \<open>id\<close> are the same as before.
\<close>

theorem updateLogEntry_keeps_id_and_type:
  "(editingEntry s = Some e \<and> e \<in> set (logs s)
      \<and> StressForm_handleSubmit trim dateParse (stressInitialData s) st = OnSave dT
      \<and> id' dT \<noteq> [] \<and> timestamp dT \<noteq> 0 \<longrightarrow>
        submitStressForm trim dateParse tz now uuid st s = updateLogEntry tz now (stressEntryData dT) s
      \<and> id' (stressEntryData dT) = id' e \<and> type' (stressEntryData dT) = type' e
      \<and> stressEntryData dT \<in> set (logs (updateLogEntry tz now (stressEntryData dT) s))
      \<and> (\<forall>x \<in> set (logs (updateLogEntry tz now (stressEntryData dT) s)).
            id' x = id' e \<longrightarrow> x = stressEntryData dT)
      \<and> mset (filter (\<lambda>x. id' x \<noteq> id' e) (logs (updateLogEntry tz now (stressEntryData dT) s)))
          = mset (filter (\<lambda>x. id' x \<noteq> id' e) (logs s)))
   \<and> (editingEntry s = Some e \<and> e \<in> set (logs s)
      \<and> SymptomForm_handleSubmit trim dateParse (symptomInitialData s) sst = OnSave dS
      \<and> id' dS \<noteq> [] \<and> timestamp dS \<noteq> 0 \<longrightarrow>
        submitSymptomForm trim dateParse tz now uuid sst s = updateLogEntry tz now (symptomEntryData dS) s
      \<and> id' (symptomEntryData dS) = id' e \<and> type' (symptomEntryData dS) = type' e
      \<and> symptomEntryData dS \<in> set (logs (updateLogEntry tz now (symptomEntryData dS) s))
      \<and> (\<forall>x \<in> set (logs (updateLogEntry tz now (symptomEntryData dS) s)).
            id' x = id' e \<longrightarrow> x = symptomEntryData dS)
      \<and> mset (filter (\<lambda>x. id' x \<noteq> id' e) (logs (updateLogEntry tz now (symptomEntryData dS) s)))
          = mset (filter (\<lambda>x. id' x \<noteq> id' e) (logs s)))
   \<and> (editingEntry s = Some e \<and> e \<in> set (logs s)
      \<and> IntakeForm_handleSubmit trim dateParse (intakeInitialData s) ist = OnSave dI
      \<and> id' dI \<noteq> [] \<and> timestamp dI \<noteq> 0 \<longrightarrow>
        submitIntakeForm trim dateParse tz now uuid ist s = updateLogEntry tz now (intakeEntryData dI) s
      \<and> id' (intakeEntryData dI) = id' e \<and> type' (intakeEntryData dI) = type' e
      \<and> intakeEntryData dI \<in> set (logs (updateLogEntry tz now (intakeEntryData dI) s))
      \<and> (\<forall>x \<in> set (logs (updateLogEntry tz now (intakeEntryData dI) s)).
            id' x = id' e \<longrightarrow> x = intakeEntryData dI)
      \<and> mset (filter (\<lambda>x. id' x \<noteq> id' e) (logs (updateLogEntry tz now (intakeEntryData dI) s)))
          = mset (filter (\<lambda>x. id' x \<noteq> id' e) (logs s)))"
proof (intro conjI impI)
  assume a: "editingEntry s = Some e \<and> e \<in> set (logs s)
      \<and> StressForm_handleSubmit trim dateParse (stressInitialData s) st = OnSave dT
      \<and> id' dT \<noteq> [] \<and> timestamp dT \<noteq> 0"
  then show "submitStressForm trim dateParse tz now uuid st s
      = updateLogEntry tz now (stressEntryData dT) s"
    by (simp add: submitStressForm_update)
  from a have k: "id' (stressEntryData dT) = id' e \<and> type' (stressEntryData dT) = type' e"
    using StressForm_edit_data [of s e trim dateParse st dT] by simp
  then show "id' (stressEntryData dT) = id' e" and "type' (stressEntryData dT) = type' e"
    by simp_all
  from a k have r: "stressEntryData dT \<in> set (logs (updateLogEntry tz now (stressEntryData dT) s))
       \<and> (\<forall>x \<in> set (logs (updateLogEntry tz now (stressEntryData dT) s)).
            id' x = id' e \<longrightarrow> x = stressEntryData dT)
       \<and> mset (filter (\<lambda>x. id' x \<noteq> id' e) (logs (updateLogEntry tz now (stressEntryData dT) s)))
           = mset (filter (\<lambda>x. id' x \<noteq> id' e) (logs s))"
    using updateLogEntry_replaces_entry [of e s "stressEntryData dT" tz now] by simp
  then show "stressEntryData dT \<in> set (logs (updateLogEntry tz now (stressEntryData dT) s))"
    and "\<forall>x \<in> set (logs (updateLogEntry tz now (stressEntryData dT) s)).
            id' x = id' e \<longrightarrow> x = stressEntryData dT"
    and "mset (filter (\<lambda>x. id' x \<noteq> id' e) (logs (updateLogEntry tz now (stressEntryData dT) s)))
           = mset (filter (\<lambda>x. id' x \<noteq> id' e) (logs s))"
    by simp_all
next
  assume a: "editingEntry s = Some e \<and> e \<in> set (logs s)
      \<and> SymptomForm_handleSubmit trim dateParse (symptomInitialData s) sst = OnSave dS
      \<and> id' dS \<noteq> [] \<and> timestamp dS \<noteq> 0"
  then show "submitSymptomForm trim dateParse tz now uuid sst s
      = updateLogEntry tz now (symptomEntryData dS) s"
    by (simp add: submitSymptomForm_update)
  from a have k: "id' (symptomEntryData dS) = id' e \<and> type' (symptomEntryData dS) = type' e"
    using SymptomForm_edit_data [of s e trim dateParse sst dS] by simp
  then show "id' (symptomEntryData dS) = id' e" and "type' (symptomEntryData dS) = type' e"
    by simp_all
  from a k have r: "symptomEntryData dS \<in> set (logs (updateLogEntry tz now (symptomEntryData dS) s))
       \<and> (\<forall>x \<in> set (logs (updateLogEntry tz now (symptomEntryData dS) s)).
            id' x = id' e \<longrightarrow> x = symptomEntryData dS)
       \<and> mset (filter (\<lambda>x. id' x \<noteq> id' e) (logs (updateLogEntry tz now (symptomEntryData dS) s)))
           = mset (filter (\<lambda>x. id' x \<noteq> id' e) (logs s))"
    using updateLogEntry_replaces_entry [of e s "symptomEntryData dS" tz now] by simp
  then show "symptomEntryData dS \<in> set (logs (updateLogEntry tz now (symptomEntryData dS) s))"
    and "\<forall>x \<in> set (logs (updateLogEntry tz now (symptomEntryData dS) s)).
            id' x = id' e \<longrightarrow> x = symptomEntryData dS"
    and "mset (filter (\<lambda>x. id' x \<noteq> id' e) (logs (updateLogEntry tz now (symptomEntryData dS) s)))
           = mset (filter (\<lambda>x. id' x \<noteq> id' e) (logs s))"
    by simp_all
next
  assume a: "editingEntry s = Some e \<and> e \<in> set (logs s)
      \<and> IntakeForm_handleSubmit trim dateParse (intakeInitialData s) ist = OnSave dI
      \<and> id' dI \<noteq> [] \<and> timestamp dI \<noteq> 0"
  then show "submitIntakeForm trim dateParse tz now uuid ist s
      = updateLogEntry tz now (intakeEntryData dI) s"
    by (simp add: submitIntakeForm_update)
  from a have k: "id' (intakeEntryData dI) = id' e \<and> type' (intakeEntryData dI) = type' e"
    using IntakeForm_edit_data [of s e trim dateParse ist dI] by simp
  then show "id' (intakeEntryData dI) = id' e" and "type' (intakeEntryData dI) = type' e"
    by simp_all
  from a k have r: "intakeEntryData dI \<in> set (logs (updateLogEntry tz now (intakeEntryData dI) s))
       \<and> (\<forall>x \<in> set (logs (updateLogEntry tz now (intakeEntryData dI) s)).
            id' x = id' e \<longrightarrow> x = intakeEntryData dI)
       \<and> mset (filter (\<lambda>x. id' x \<noteq> id' e) (logs (updateLogEntry tz now (intakeEntryData dI) s)))
           = mset (filter (\<lambda>x. id' x \<noteq> id' e) (logs s))"
    using updateLogEntry_replaces_entry [of e s "intakeEntryData dI" tz now] by simp
  then show "intakeEntryData dI \<in> set (logs (updateLogEntry tz now (intakeEntryData dI) s))"
    and "\<forall>x \<in> set (logs (updateLogEntry tz now (intakeEntryData dI) s)).
            id' x = id' e \<longrightarrow> x = intakeEntryData dI"
    and "mset (filter (\<lambda>x. id' x \<noteq> id' e) (logs (updateLogEntry tz now (intakeEntryData dI) s)))
           = mset (filter (\<lambda>x. id' x \<noteq> id' e) (logs s))"
    by simp_all
qed

text \<open>
  Each form editing the entry of its kind in a collection of two entries, with a date
  that parses to 2024-01-01 10:00 UTC.
\<close>

theorem updateLogEntry_keeps_id_and_type_witness:
  "editingEntry (stateOf [stressEntry1, intakeEntry1] (Some stressEntry1) True) = Some stressEntry1
   \<and> stressEntry1 \<in> set (logs (stateOf [stressEntry1, intakeEntry1] (Some stressEntry1) True))
   \<and> StressForm_handleSubmit trimUtf8 dateParseExample
        (stressInitialData (stateOf [stressEntry1, intakeEntry1] (Some stressEntry1) True))
        \<lparr>level_st = 4, notes_stress = '' x '', editedDateTime_stress = ''2024-01-01T10:00''\<rparr>
     = OnSave \<lparr>id' = ''s1'', timestamp = 1704103200000, level = 4, stressNotes = Some ''x''\<rparr>
   \<and> type' \<lparr>id' = ''s1'', timestamp = 1704103200000, body = StressLog 4 (Some ''x'')\<rparr>
       = type' stressEntry1
   \<and> logs (submitStressForm trimUtf8 dateParseExample utcDate 1704132000000 ''u1''
        \<lparr>level_st = 4, notes_stress = '' x '', editedDateTime_stress = ''2024-01-01T10:00''\<rparr>
        (stateOf [stressEntry1, intakeEntry1] (Some stressEntry1) True))
     = [\<lparr>id' = ''s1'', timestamp = 1704103200000, body = StressLog 4 (Some ''x'')\<rparr>, intakeEntry1]
   \<and> editingEntry (stateOf [stressEntry1, symptomEntry1] (Some symptomEntry1) True) = Some symptomEntry1
   \<and> symptomEntry1 \<in> set (logs (stateOf [stressEntry1, symptomEntry1] (Some symptomEntry1) True))
   \<and> SymptomForm_handleSubmit trimUtf8 dateParseExample
        (symptomInitialData (stateOf [stressEntry1, symptomEntry1] (Some symptomEntry1) True))
        \<lparr>bowelMovement_st = Some type4, crampsSeverity_st = 3, bloatingSeverity_st = 0,
         urgency_st = False, notes_symptom = [], editedDateTime_symptom = ''2024-01-01T10:00''\<rparr>
     = OnSave \<lparr>id' = ''y1'', timestamp = 1704103200000, bowelMovement = Some type4,
               crampsSeverity = Some 3, bloatingSeverity = None, urgency = None, symptomNotes = None\<rparr>
   \<and> type' \<lparr>id' = ''y1'', timestamp = 1704103200000,
             body = SymptomLog (Some type4) (Some 3) None None None\<rparr>
       = type' symptomEntry1
   \<and> logs (submitSymptomForm trimUtf8 dateParseExample utcDate 1704132000000 ''u1''
        \<lparr>bowelMovement_st = Some type4, crampsSeverity_st = 3, bloatingSeverity_st = 0,
         urgency_st = False, notes_symptom = [], editedDateTime_symptom = ''2024-01-01T10:00''\<rparr>
        (stateOf [stressEntry1, symptomEntry1] (Some symptomEntry1) True))
     = [stressEntry1,
        \<lparr>id' = ''y1'', timestamp = 1704103200000, body = SymptomLog (Some type4) (Some 3) None None None\<rparr>]
   \<and> editingEntry (stateOf [stressEntry1, intakeEntry1] (Some intakeEntry1) True) = Some intakeEntry1
   \<and> intakeEntry1 \<in> set (logs (stateOf [stressEntry1, intakeEntry1] (Some intakeEntry1) True))
   \<and> IntakeForm_handleSubmit trimUtf8 dateParseExample
        (intakeInitialData (stateOf [stressEntry1, intakeEntry1] (Some intakeEntry1) True))
        \<lparr>item_st = ''tea '', quantity_st = ''1 cup'', notes_intake = [],
         editedDateTime_intake = ''2024-01-01T10:00''\<rparr>
     = OnSave \<lparr>id' = ''i1'', timestamp = 1704103200000, item = ''tea'', quantity = Some ''1 cup'',
               intakeNotes = None\<rparr>
   \<and> type' \<lparr>id' = ''i1'', timestamp = 1704103200000, body = IntakeLog ''tea'' (Some ''1 cup'') None\<rparr>
       = type' intakeEntry1
   \<and> logs (submitIntakeForm trimUtf8 dateParseExample utcDate 1704132000000 ''u1''
        \<lparr>item_st = ''tea '', quantity_st = ''1 cup'', notes_intake = [],
         editedDateTime_intake = ''2024-01-01T10:00''\<rparr>
        (stateOf [stressEntry1, intakeEntry1] (Some intakeEntry1) True))
     = [stressEntry1,
        \<lparr>id' = ''i1'', timestamp = 1704103200000, body = IntakeLog ''tea'' (Some ''1 cup'') None\<rparr>]"
proof -
  define sT where "sT = stateOf [stressEntry1, intakeEntry1] (Some stressEntry1) True"
  define sS where "sS = stateOf [stressEntry1, symptomEntry1] (Some symptomEntry1) True"
  define sI where "sI = stateOf [stressEntry1, intakeEntry1] (Some intakeEntry1) True"
  define fT :: StressFormState where
    "fT = \<lparr>level_st = 4, notes_stress = '' x '', editedDateTime_stress = ''2024-01-01T10:00''\<rparr>"
  define fS :: SymptomFormState where
    "fS = \<lparr>bowelMovement_st = Some type4, crampsSeverity_st = 3, bloatingSeverity_st = 0,
         urgency_st = False, notes_symptom = [], editedDateTime_symptom = ''2024-01-01T10:00''\<rparr>"
  define fI :: IntakeFormState where
    "fI = \<lparr>item_st = ''tea '', quantity_st = ''1 cup'', notes_intake = [],
         editedDateTime_intake = ''2024-01-01T10:00''\<rparr>"
  define dT :: StressFormData where
    "dT = \<lparr>id' = ''s1'', timestamp = 1704103200000, level = 4, stressNotes = Some ''x''\<rparr>"
  define dS :: SymptomFormData where
    "dS = \<lparr>id' = ''y1'', timestamp = 1704103200000, bowelMovement = Some type4,
               crampsSeverity = Some 3, bloatingSeverity = None, urgency = None, symptomNotes = None\<rparr>"
  define dI :: IntakeFormData where
    "dI = \<lparr>id' = ''i1'', timestamp = 1704103200000, item = ''tea'', quantity = Some ''1 cup'',
               intakeNotes = None\<rparr>"
  have hT: "editingEntry sT = Some stressEntry1 \<and> stressEntry1 \<in> set (logs sT)"
    and hS: "editingEntry sS = Some symptomEntry1 \<and> symptomEntry1 \<in> set (logs sS)"
    and hI: "editingEntry sI = Some intakeEntry1 \<and> intakeEntry1 \<in> set (logs sI)"
    by (simp_all add: sT_def sS_def sI_def stateOf_def)
  have gT: "StressForm_handleSubmit trimUtf8 dateParseExample (stressInitialData sT) fT = OnSave dT"
    unfolding sT_def fT_def dT_def by code_simp
  have gS: "SymptomForm_handleSubmit trimUtf8 dateParseExample (symptomInitialData sS) fS = OnSave dS"
    unfolding sS_def fS_def dS_def by code_simp
  have gI: "IntakeForm_handleSubmit trimUtf8 dateParseExample (intakeInitialData sI) fI = OnSave dI"
    unfolding sI_def fI_def dI_def by code_simp
  have nT: "id' dT \<noteq> [] \<and> timestamp dT \<noteq> 0" and nS: "id' dS \<noteq> [] \<and> timestamp dS \<noteq> 0"
    and nI: "id' dI \<noteq> [] \<and> timestamp dI \<noteq> 0"
    by (simp_all add: dT_def dS_def dI_def)
  note T = updateLogEntry_keeps_id_and_type [where trim = trimUtf8 and dateParse = dateParseExample
      and tz = utcDate and now = 1704132000000 and uuid = "''u1''"]
  from T [where s = sT and e = stressEntry1 and st = fT and dT = dT] hT gT nT
  have rT: "submitStressForm trimUtf8 dateParseExample utcDate 1704132000000 ''u1'' fT sT
              = updateLogEntry utcDate 1704132000000 (stressEntryData dT) sT
          \<and> type' (stressEntryData dT) = type' stressEntry1"
    by simp
  from T [where s = sS and e = symptomEntry1 and sst = fS and dS = dS] hS gS nS
  have rS: "submitSymptomForm trimUtf8 dateParseExample utcDate 1704132000000 ''u1'' fS sS
              = updateLogEntry utcDate 1704132000000 (symptomEntryData dS) sS
          \<and> type' (symptomEntryData dS) = type' symptomEntry1"
    by simp
  from T [where s = sI and e = intakeEntry1 and ist = fI and dI = dI] hI gI nI
  have rI: "submitIntakeForm trimUtf8 dateParseExample utcDate 1704132000000 ''u1'' fI sI
              = updateLogEntry utcDate 1704132000000 (intakeEntryData dI) sI
          \<and> type' (intakeEntryData dI) = type' intakeEntry1"
    by simp
  have lT: "logs (submitStressForm trimUtf8 dateParseExample utcDate 1704132000000 ''u1'' fT sT)
              = [stressEntryData dT, intakeEntry1]"
    using rT
    by (simp add: logs_updateLogEntry sT_def stateOf_def stressEntryData_def dT_def
        stressEntry1_def intakeEntry1_def sortDescending_def)
  have lS: "logs (submitSymptomForm trimUtf8 dateParseExample utcDate 1704132000000 ''u1'' fS sS)
              = [stressEntry1, symptomEntryData dS]"
    using rS
    by (simp add: logs_updateLogEntry sS_def stateOf_def symptomEntryData_def dS_def
        stressEntry1_def symptomEntry1_def sortDescending_def)
  have lI: "logs (submitIntakeForm trimUtf8 dateParseExample utcDate 1704132000000 ''u1'' fI sI)
              = [stressEntry1, intakeEntryData dI]"
    using rI
    by (simp add: logs_updateLogEntry sI_def stateOf_def intakeEntryData_def dI_def
        stressEntry1_def intakeEntry1_def sortDescending_def)
  have eT: "stressEntryData dT = \<lparr>id' = ''s1'', timestamp = 1704103200000, body = StressLog 4 (Some ''x'')\<rparr>"
    and eS: "symptomEntryData dS = \<lparr>id' = ''y1'', timestamp = 1704103200000,
             body = SymptomLog (Some type4) (Some 3) None None None\<rparr>"
    and eI: "intakeEntryData dI = \<lparr>id' = ''i1'', timestamp = 1704103200000,
             body = IntakeLog ''tea'' (Some ''1 cup'') None\<rparr>"
    by (simp_all add: stressEntryData_def symptomEntryData_def intakeEntryData_def dT_def dS_def dI_def)
  have tT: "type' \<lparr>id' = ''s1'', timestamp = 1704103200000, body = StressLog 4 (Some ''x'')\<rparr>
              = type' stressEntry1"
    and tS: "type' \<lparr>id' = ''y1'', timestamp = 1704103200000,
                   body = SymptomLog (Some type4) (Some 3) None None None\<rparr> = type' symptomEntry1"
    and tI: "type' \<lparr>id' = ''i1'', timestamp = 1704103200000,
                   body = IntakeLog ''tea'' (Some ''1 cup'') None\<rparr> = type' intakeEntry1"
    using rT rS rI by (simp_all only: eT eS eI)
  note l = lT [unfolded eT] lS [unfolded eS] lI [unfolded eI]
  show ?thesis
    using hT hS hI gT gS gI tT tS tI l
    unfolding sT_def sS_def sI_def fT_def fS_def fI_def dT_def dS_def dI_def
    by blast
qed

section \<open>The daily stress entry\<close>

text \<open>
  \<open>handleSaveStress\<close> decides on the flag \<open>stressLoggedToday\<close>, not on the collection. The
  flag is brought up to date by \<open>checkStressLogStatus\<close>, which the effect runs whenever the
  collection changes and which the five-minute timer runs when the day has changed; in
  between it keeps the value computed at the last run.
\<close>

lemma stressStatus_checkStressLogStatus:
  "stressLoggedToday (checkStressLogStatus tz now s) = stressStatus tz now (logs s)"
  by (simp add: checkStressLogStatus_def)

lemma lastStressLog_member:
  "lastStressLog xs = Some l \<Longrightarrow> l \<in> set xs \<and> type' l = Stress"
proof -
  assume a: "lastStressLog xs = Some l"
  then obtain rest where "sortDescending (filter (\<lambda>log. type' log = Stress) xs) = l # rest"
    by (auto simp: lastStressLog_def split: list.splits)
  then have "l \<in> set (sortDescending (filter (\<lambda>log. type' log = Stress) xs))"
    by simp
  then show ?thesis
    by (simp add: sortDescending_def)
qed

lemma no_stress_today_status:
  assumes "\<forall>e \<in> set xs. type' e = Stress \<longrightarrow> \<not> isToday tz now (timestamp e)"
  shows "\<not> stressStatus tz now xs"
  using assms lastStressLog_member [of xs]
  by (auto simp: stressStatus_def split: option.splits)

lemma StressForm_handleSubmit_create:
  "StressForm_handleSubmit trim dateParse None st
     = OnSave \<lparr>id' = [], timestamp = 0, level = level_st st,
                stressNotes = orUndefined (trim (notes_stress st))\<rparr>"
  by (simp add: StressForm_handleSubmit_def)

text \<open>
  With a flag computed at the moment of the save, the guard does what it is meant to do:
  a creation is refused when the most recent stress entry is of today, and is accepted
  when no stress entry is of today.
\<close>

lemma handleSaveStress_checked_refuses:
  assumes "stressStatus tz now (logs s)" and "id' data = []"
  shows "logs (handleSaveStress tz now uuid data (checkStressLogStatus tz now s)) = logs s"
    and "alerts (handleSaveStress tz now uuid data (checkStressLogStatus tz now s))
           = alerts s @ [''You have already logged your stress level for today.'']"
  using assms by (simp_all add: handleSaveStress_def checkStressLogStatus_def alert_def)

lemma handleSaveStress_checked_creates:
  assumes "\<forall>e \<in> set (logs s). type' e = Stress \<longrightarrow> \<not> isToday tz now (timestamp e)"
      and "id' data = []"
  shows "logs (handleSaveStress tz now uuid data (checkStressLogStatus tz now s))
           = sortDescending (logs s @
               [\<lparr>id' = uuid, timestamp = now, body = StressLog (level data) (stressNotes data)\<rparr>])"
  using assms no_stress_today_status [of "logs s" tz now]
  by (simp add: handleSaveStress_def checkStressLogStatus_def logs_createLogEntry stressEntryData_def)

text \<open>
  The handler recognises an edit by a non-empty \<open>id\<close> and a non-zero \<open>timestamp\<close>. An edit
  whose date parses to the timestamp \<open>0\<close> is therefore treated as a creation, and is
  refused when the flag is set.
\<close>

lemma handleSaveStress_zero_timestamp:
  "timestamp data = 0 \<Longrightarrow> stressLoggedToday s \<Longrightarrow>
   handleSaveStress tz now uuid data s
     = (alert ''You have already logged your stress level for today.'' s)\<lparr>activeView := ViewLog\<rparr>"
  by (simp add: handleSaveStress_def)

text \<open>
  Claim C3. The guard of \<open>handleSaveStress\<close>, the guard of the navigation and the comment of
  the aggregation say that a second stress entry on a day on which one exists is to be
  refused. It is not refused while the flag is out of date. At 23:59 UTC on 2024-01-01
  the only stress entry is moved by an edit to 00:02 of the next day, and the effect
  computes the flag \<open>false\<close>. At 00:03 of 2024-01-02, before the timer has run again, the
  most recent stress entry is of the current day, and the creation of a second stress
  entry is accepted: the collection then holds two stress entries of 2024-01-02.
\<close>

theorem handleSaveStress_stale_flag:
  "stressStatus utcDate 1704153780000
     (logs (appEffect utcDate 1704153540000
        (handleSaveStress utcDate 1704153540000 ''u1''
           \<lparr>id' = ''s1'', timestamp = 1704153720000, level = 3, stressNotes = None\<rparr>
           (stateOf [stressEntry1] (Some stressEntry1) True))))
   \<and> logs (handleSaveStress utcDate 1704153780000 ''u2''
        \<lparr>id' = [], timestamp = 0, level = 2, stressNotes = None\<rparr>
        (appEffect utcDate 1704153540000
          (handleSaveStress utcDate 1704153540000 ''u1''
             \<lparr>id' = ''s1'', timestamp = 1704153720000, level = 3, stressNotes = None\<rparr>
             (stateOf [stressEntry1] (Some stressEntry1) True))))
     = [\<lparr>id' = ''u2'', timestamp = 1704153780000, body = StressLog 2 None\<rparr>,
        \<lparr>id' = ''s1'', timestamp = 1704153720000, body = StressLog 3 None\<rparr>]"
  by code_simp

section \<open>Edited dates that do not parse\<close>

text \<open>
  Claim C4. When a form is editing an existing entry and the edited date and time does
  not parse (\<open>parseInputTimestamp\<close> gives \<open>NaN\<close>), \<open>handleSubmit\<close> alerts the user and
  returns without calling \<open>onSave\<close>, so that the application's state changes only by the
  alert and the stored collection is the same. This holds for the stress form, the intake
  form (where an empty item is reported first) and the symptom form.
\<close>

theorem unparseable_edit_is_blocked:
  "(stressInitialData s \<noteq> None
      \<and> parseInputTimestamp dateParse (editedDateTime_stress st) = None \<longrightarrow>
        StressForm_handleSubmit trim dateParse (stressInitialData s) st = Alert invalidDateMessage
      \<and> submitStressForm trim dateParse tz now uuid st s = alert invalidDateMessage s
      \<and> logs (submitStressForm trim dateParse tz now uuid st s) = logs s)
   \<and> (intakeInitialData s \<noteq> None
      \<and> parseInputTimestamp dateParse (editedDateTime_intake ist) = None \<longrightarrow>
        IntakeForm_handleSubmit trim dateParse (intakeInitialData s) ist
          = Alert (if trim (item_st ist) = [] then ''Please enter the item consumed.''
                   else invalidDateMessage)
      \<and> submitIntakeForm trim dateParse tz now uuid ist s
          = alert (if trim (item_st ist) = [] then ''Please enter the item consumed.''
                   else invalidDateMessage) s
      \<and> logs (submitIntakeForm trim dateParse tz now uuid ist s) = logs s)
   \<and> (symptomInitialData s \<noteq> None
      \<and> parseInputTimestamp dateParse (editedDateTime_symptom sst) = None \<longrightarrow>
        SymptomForm_handleSubmit trim dateParse (symptomInitialData s) sst = Alert invalidDateMessage
      \<and> submitSymptomForm trim dateParse tz now uuid sst s = alert invalidDateMessage s
      \<and> logs (submitSymptomForm trim dateParse tz now uuid sst s) = logs s)"
proof (intro conjI impI)
  assume a: "stressInitialData s \<noteq> None
      \<and> parseInputTimestamp dateParse (editedDateTime_stress st) = None"
  then show r: "StressForm_handleSubmit trim dateParse (stressInitialData s) st = Alert invalidDateMessage"
    by (simp add: StressForm_handleSubmit_def Let_def)
  then show "submitStressForm trim dateParse tz now uuid st s = alert invalidDateMessage s"
    and "logs (submitStressForm trim dateParse tz now uuid st s) = logs s"
    by (simp_all add: submitStressForm_def logs_alert)
next
  assume a: "symptomInitialData s \<noteq> None
      \<and> parseInputTimestamp dateParse (editedDateTime_symptom sst) = None"
  then show r: "SymptomForm_handleSubmit trim dateParse (symptomInitialData s) sst = Alert invalidDateMessage"
    by (simp add: SymptomForm_handleSubmit_def Let_def)
  then show "submitSymptomForm trim dateParse tz now uuid sst s = alert invalidDateMessage s"
    and "logs (submitSymptomForm trim dateParse tz now uuid sst s) = logs s"
    by (simp_all add: submitSymptomForm_def logs_alert)
next
  assume a: "intakeInitialData s \<noteq> None
      \<and> parseInputTimestamp dateParse (editedDateTime_intake ist) = None"
  then show r: "IntakeForm_handleSubmit trim dateParse (intakeInitialData s) ist
          = Alert (if trim (item_st ist) = [] then ''Please enter the item consumed.''
                   else invalidDateMessage)"
    by (simp add: IntakeForm_handleSubmit_def Let_def)
  then show "submitIntakeForm trim dateParse tz now uuid ist s
          = alert (if trim (item_st ist) = [] then ''Please enter the item consumed.''
                   else invalidDateMessage) s"
    and "logs (submitIntakeForm trim dateParse tz now uuid ist s) = logs s"
    by (simp_all add: submitIntakeForm_def logs_alert)
qed

text \<open>Each form, editing an entry of its kind, with a date the parser rejects.\<close>

theorem unparseable_edit_is_blocked_witness:
  "stressInitialData (stateOf [stressEntry1] (Some stressEntry1) True) \<noteq> None
   \<and> parseInputTimestamp dateParseExample
        (editedDateTime_stress \<lparr>level_st = 4, notes_stress = ''x'', editedDateTime_stress = ''2024-13-01T10:00''\<rparr>) = None
   \<and> submitStressForm trimUtf8 dateParseExample utcDate 1704132000000 ''u1''
        \<lparr>level_st = 4, notes_stress = ''x'', editedDateTime_stress = ''2024-13-01T10:00''\<rparr>
        (stateOf [stressEntry1] (Some stressEntry1) True)
     = (stateOf [stressEntry1] (Some stressEntry1) True)\<lparr>alerts := [invalidDateMessage]\<rparr>
   \<and> intakeInitialData (stateOf [intakeEntry1] (Some intakeEntry1) False) \<noteq> None
   \<and> parseInputTimestamp dateParseExample
        (editedDateTime_intake \<lparr>item_st = ''tea'', quantity_st = ''1 cup'', notes_intake = [],
                                 editedDateTime_intake = []\<rparr>) = None
   \<and> submitIntakeForm trimUtf8 dateParseExample utcDate 1704132000000 ''u1''
        \<lparr>item_st = ''tea'', quantity_st = ''1 cup'', notes_intake = [], editedDateTime_intake = []\<rparr>
        (stateOf [intakeEntry1] (Some intakeEntry1) False)
     = (stateOf [intakeEntry1] (Some intakeEntry1) False)\<lparr>alerts := [invalidDateMessage]\<rparr>
   \<and> symptomInitialData (stateOf [symptomEntry1] (Some symptomEntry1) False) \<noteq> None
   \<and> parseInputTimestamp dateParseExample
        (editedDateTime_symptom \<lparr>bowelMovement_st = None, crampsSeverity_st = 2, bloatingSeverity_st = 0,
           urgency_st = False, notes_symptom = [], editedDateTime_symptom = ''yesterday''\<rparr>) = None
   \<and> submitSymptomForm trimUtf8 dateParseExample utcDate 1704132000000 ''u1''
        \<lparr>bowelMovement_st = None, crampsSeverity_st = 2, bloatingSeverity_st = 0,
           urgency_st = False, notes_symptom = [], editedDateTime_symptom = ''yesterday''\<rparr>
        (stateOf [symptomEntry1] (Some symptomEntry1) False)
     = (stateOf [symptomEntry1] (Some symptomEntry1) False)\<lparr>alerts := [invalidDateMessage]\<rparr>"
proof -
  have h1: "stressInitialData (stateOf [stressEntry1] (Some stressEntry1) True) \<noteq> None
   \<and> parseInputTimestamp dateParseExample
        (editedDateTime_stress \<lparr>level_st = 4, notes_stress = ''x'', editedDateTime_stress = ''2024-13-01T10:00''\<rparr>) = None"
    by (simp add: stressInitialData_def stateOf_def stressEntry1_def parseInputTimestamp_def dateParseExample_def)
  have h2: "intakeInitialData (stateOf [intakeEntry1] (Some intakeEntry1) False) \<noteq> None
   \<and> parseInputTimestamp dateParseExample
        (editedDateTime_intake \<lparr>item_st = ''tea'', quantity_st = ''1 cup'', notes_intake = [],
                                 editedDateTime_intake = []\<rparr>) = None"
    by (simp add: intakeInitialData_def stateOf_def intakeEntry1_def parseInputTimestamp_def dateParseExample_def)
  have h3: "symptomInitialData (stateOf [symptomEntry1] (Some symptomEntry1) False) \<noteq> None
   \<and> parseInputTimestamp dateParseExample
        (editedDateTime_symptom \<lparr>bowelMovement_st = None, crampsSeverity_st = 2, bloatingSeverity_st = 0,
           urgency_st = False, notes_symptom = [], editedDateTime_symptom = ''yesterday''\<rparr>) = None"
    by (simp add: symptomInitialData_def stateOf_def symptomEntry1_def parseInputTimestamp_def dateParseExample_def)
  have t: "trimUtf8 ''tea'' \<noteq> []"
    by code_simp
  note T = unparseable_edit_is_blocked [where trim = trimUtf8 and dateParse = dateParseExample and tz = utcDate
      and now = 1704132000000 and uuid = "''u1''"]
  from h1 T [where s = "stateOf [stressEntry1] (Some stressEntry1) True"
      and st = "\<lparr>level_st = 4, notes_stress = ''x'', editedDateTime_stress = ''2024-13-01T10:00''\<rparr>"]
  have c1: "submitStressForm trimUtf8 dateParseExample utcDate 1704132000000 ''u1''
        \<lparr>level_st = 4, notes_stress = ''x'', editedDateTime_stress = ''2024-13-01T10:00''\<rparr>
        (stateOf [stressEntry1] (Some stressEntry1) True)
     = (stateOf [stressEntry1] (Some stressEntry1) True)\<lparr>alerts := [invalidDateMessage]\<rparr>"
    by (simp add: alert_def stateOf_def)
  from h2 t T [where s = "stateOf [intakeEntry1] (Some intakeEntry1) False"
      and ist = "\<lparr>item_st = ''tea'', quantity_st = ''1 cup'', notes_intake = [], editedDateTime_intake = []\<rparr>"]
  have c2: "submitIntakeForm trimUtf8 dateParseExample utcDate 1704132000000 ''u1''
        \<lparr>item_st = ''tea'', quantity_st = ''1 cup'', notes_intake = [], editedDateTime_intake = []\<rparr>
        (stateOf [intakeEntry1] (Some intakeEntry1) False)
     = (stateOf [intakeEntry1] (Some intakeEntry1) False)\<lparr>alerts := [invalidDateMessage]\<rparr>"
    by (simp add: alert_def stateOf_def)
  from h3 T [where s = "stateOf [symptomEntry1] (Some symptomEntry1) False"
      and sst = "\<lparr>bowelMovement_st = None, crampsSeverity_st = 2, bloatingSeverity_st = 0,
           urgency_st = False, notes_symptom = [], editedDateTime_symptom = ''yesterday''\<rparr>"]
  have c3: "submitSymptomForm trimUtf8 dateParseExample utcDate 1704132000000 ''u1''
        \<lparr>bowelMovement_st = None, crampsSeverity_st = 2, bloatingSeverity_st = 0,
           urgency_st = False, notes_symptom = [], editedDateTime_symptom = ''yesterday''\<rparr>
        (stateOf [symptomEntry1] (Some symptomEntry1) False)
     = (stateOf [symptomEntry1] (Some symptomEntry1) False)\<lparr>alerts := [invalidDateMessage]\<rparr>"
    by (simp add: alert_def stateOf_def)
  from h1 h2 h3 c1 c2 c3 show ?thesis by blast
qed

end
